theory Spec2Isabelle
  imports Main "HOL-Library.Word"
begin

section \<open>Python values, exceptions and calls that leave the program\<close>

text \<open>
  The values that reach the handlers as arguments of a tool call. \<open>POther s\<close> stands
  for any value that is neither \<open>None\<close>, a bool, an int nor a str (a float, a list, an
  object); it carries the text \<open>str()\<close> gives for it.
\<close>

datatype pyval = PNone | PBool bool | PInt int | PStr string | POther string

text \<open>An exception derived from \<open>Exception\<close>: its class name and the text of \<open>str(e)\<close>.\<close>

datatype exn = Exn string string

fun str_exn :: "exn \<Rightarrow> string" where
  "str_exn (Exn cls msg) = msg"

fun dec :: "nat \<Rightarrow> string" where
  "dec n = (if n < 10 then [char_of (48 + n)] else dec (n div 10) @ [char_of (48 + n mod 10)])"

fun py_str :: "pyval \<Rightarrow> string" where
  "py_str PNone = ''None''"
| "py_str (PBool b) = (if b then ''True'' else ''False'')"
| "py_str (PInt i) = (if i < 0 then ''-'' @ dec (nat (- i)) else dec (nat i))"
| "py_str (PStr s) = s"
| "py_str (POther s) = s"

definition quote :: "string \<Rightarrow> string" where
  "quote s = [CHR 0x27] @ s @ [CHR 0x27]"

type_synonym params = "(string \<times> pyval) list"

definition dict_get :: "params \<Rightarrow> string \<Rightarrow> pyval" where
  "dict_get params k = (case map_of params k of None \<Rightarrow> PNone | Some v \<Rightarrow> v)"

datatype call = Call string "pyval list" | CallKw string params

type_synonym trace = "call list"

type_synonym env = "trace \<Rightarrow> call \<Rightarrow> exn + pyval"

definition invoke :: "env \<Rightarrow> call \<Rightarrow> trace \<Rightarrow> (exn + pyval) \<times> trace" where
  "invoke env c t = (env t c, t @ [c])"

datatype handler =
  Handle_system_control | Handle_file_operation | Handle_terminal_operation
| Handle_web_operation | Handle_media_operation

definition available_functions :: "(string \<times> handler) list" where
  "available_functions =
    [(''control_volume'', Handle_system_control),
     (''control_brightness'', Handle_system_control),
     (''power_management'', Handle_system_control),
     (''window_management'', Handle_system_control),
     (''process_control'', Handle_system_control),
     (''create_file'', Handle_file_operation),
     (''read_file'', Handle_file_operation),
     (''write_file'', Handle_file_operation),
     (''append_file'', Handle_file_operation),
     (''delete_file'', Handle_file_operation),
     (''create_directory'', Handle_file_operation),
     (''list_directory'', Handle_file_operation),
     (''delete_directory'', Handle_file_operation),
     (''get_file_info'', Handle_file_operation),
     (''get_directory_size'', Handle_file_operation),
     (''execute_command'', Handle_terminal_operation),
     (''execute_command_with_output'', Handle_terminal_operation),
     (''start_process'', Handle_terminal_operation),
     (''stop_process'', Handle_terminal_operation),
     (''list_processes'', Handle_terminal_operation),
     (''get_system_info'', Handle_terminal_operation),
     (''get_network_info'', Handle_terminal_operation),
     (''search_web'', Handle_web_operation),
     (''search_images'', Handle_web_operation),
     (''search_videos'', Handle_web_operation),
     (''search_news'', Handle_web_operation),
     (''search_academic'', Handle_web_operation),
     (''download_file'', Handle_web_operation),
     (''download_image'', Handle_web_operation),
     (''download_video'', Handle_web_operation),
     (''generate_image'', Handle_media_operation),
     (''edit_image'', Handle_media_operation),
     (''analyze_image'', Handle_media_operation),
     (''generate_audio'', Handle_media_operation),
     (''transcribe_audio'', Handle_media_operation),
     (''edit_audio'', Handle_media_operation)]"

definition operations_of :: "handler \<Rightarrow> string list" where
  "operations_of h = map fst (filter (\<lambda>(n, h'). h' = h) available_functions)"


section \<open>The system controller (src/system_control.py)\<close>

record system_controller =
  system :: string
  platform_supported :: bool
  supported_features :: "(string \<times> bool) list"

definition all_features :: "bool \<Rightarrow> (string \<times> bool) list" where
  "all_features b =
    [(''volume'', b), (''brightness'', b), (''power'', b), (''window'', b), (''process'', b)]"

text \<open>
  \<open>_setup_platform_specific_imports\<close>: \<open>import_error\<close> says whether the platform's import
  raises ImportError. An unknown platform gets every feature switched off; a failed
  import only clears \<open>platform_supported\<close>.
\<close>

definition setup_platform_specific_imports :: "string \<Rightarrow> bool \<Rightarrow> system_controller" where
  "setup_platform_specific_imports sys import_error =
    (if sys = ''windows'' \<or> sys = ''linux'' then
       \<lparr>system = sys, platform_supported = \<not> import_error, supported_features = all_features True\<rparr>
     else if sys = ''darwin'' then
       \<lparr>system = sys, platform_supported = True, supported_features = all_features True\<rparr>
     else
       \<lparr>system = sys, platform_supported = False,
        supported_features = map (\<lambda>(k, v). (k, False)) (all_features True)\<rparr>)"

text \<open>
  \<open>_execute_osascript\<close>: runs the script through \<open>subprocess.run\<close> and returns the
  stripped standard output (the environment's answer stands for it); an exception is
  turned into a message, so this function never raises.
\<close>

definition execute_osascript :: "env \<Rightarrow> string \<Rightarrow> trace \<Rightarrow> (exn + pyval) \<times> trace" where
  "execute_osascript env script t =
    (case invoke env (Call ''subprocess.run'' [PStr ''osascript'', PStr ''-e'', PStr script]) t of
       (Inl e, t') \<Rightarrow> (Inr (PStr (''Error executing AppleScript: '' @ str_exn e)), t')
     | (Inr out, t') \<Rightarrow> (Inr out, t'))"

text \<open>The statements of \<open>control_volume\<close> inside its \<open>try\<close>, up to the final return.\<close>

definition volume_action :: "env \<Rightarrow> string \<Rightarrow> pyval \<Rightarrow> pyval \<Rightarrow> trace \<Rightarrow> (exn + pyval) \<times> trace" where
  "volume_action env sys action value t =
    (if sys = ''windows'' then
       (if action = PStr ''mute'' then
          invoke env (Call ''keyboard.press_and_release'' [PStr ''volume mute'']) t
        else if action = PStr ''up'' then
          invoke env (Call ''keyboard.press_and_release'' [PStr ''volume up'']) t
        else if action = PStr ''down'' then
          invoke env (Call ''keyboard.press_and_release'' [PStr ''volume down'']) t
        else if action = PStr ''set'' \<and> value \<noteq> PNone then
          invoke env (Call ''subprocess.run'' [PStr ''powershell'', PStr ''-Command'',
            PStr (''(New-Object -ComObject WScript.Shell).SendKeys([char]173); '' @
                  ''(New-Object -ComObject WScript.Shell).SendKeys([char]174); '' @
                  ''(New-Object -ComObject WScript.Shell).SendKeys([char]175);'')]) t
        else (Inr PNone, t))
     else if sys = ''darwin'' then
       (if action = PStr ''mute'' then execute_osascript env ''set volume output muted true'' t
        else if action = PStr ''unmute'' then execute_osascript env ''set volume output muted false'' t
        else if action = PStr ''set'' \<and> value \<noteq> PNone then
          execute_osascript env (''set volume output volume '' @ py_str value) t
        else (Inr PNone, t))
     else if sys = ''linux'' then
       (if action = PStr ''mute'' then
          invoke env (Call ''os.system'' [PStr ''amixer -D pulse sset Master mute'']) t
        else if action = PStr ''unmute'' then
          invoke env (Call ''os.system'' [PStr ''amixer -D pulse sset Master unmute'']) t
        else if action = PStr ''set'' \<and> value \<noteq> PNone then
          invoke env (Call ''os.system'' [PStr (''amixer -D pulse sset Master '' @ py_str value @ ''%'')]) t
        else (Inr PNone, t))
     else (Inr PNone, t))"

text \<open>
  \<open>control_volume\<close>: the feature check stands before the \<open>try\<close>, so a missing key of
  \<open>supported_features\<close> raises KeyError to the caller; everything after it is inside
  \<open>try ... except Exception\<close>.
\<close>

definition control_volume :: "env \<Rightarrow> system_controller \<Rightarrow> pyval \<Rightarrow> pyval \<Rightarrow> trace \<Rightarrow> (exn + pyval) \<times> trace" where
  "control_volume env sc action value t =
    (case map_of (supported_features sc) ''volume'' of
       None \<Rightarrow> (Inl (Exn ''KeyError'' (quote ''volume'')), t)
     | Some supported \<Rightarrow>
         if \<not> supported then (Inr (PStr ''Volume control is not supported on this system''), t)
         else
           (case volume_action env (system sc) action value t of
              (Inl e, t') \<Rightarrow> (Inr (PStr (''Error controlling volume: '' @ str_exn e)), t')
            | (Inr r, t') \<Rightarrow> (Inr (PStr (''Volume '' @ py_str action @ '' successful'')), t')))"

text \<open>
  \<open>control_volume(**params)\<close>: the keys of the mapping become keyword arguments. A key
  that is no parameter, or \<open>self\<close>, raises TypeError, and so does a missing \<open>action\<close>;
  \<open>value\<close> defaults to \<open>None\<close>. The texts are those of CPython 3.10 and later.
\<close>

fun bad_keyword :: "string list \<Rightarrow> string option" where
  "bad_keyword [] = None"
| "bad_keyword (k # ks) = (if k = ''action'' \<or> k = ''value'' then bad_keyword ks else Some k)"

definition call_control_volume :: "env \<Rightarrow> system_controller \<Rightarrow> params \<Rightarrow> trace \<Rightarrow> (exn + pyval) \<times> trace" where
  "call_control_volume env sc params t =
    (case bad_keyword (map fst params) of
       Some k \<Rightarrow>
         (Inl (Exn ''TypeError'' (''SystemController.control_volume() '' @
            (if k = ''self'' then ''got multiple values for argument '' @ quote k
             else ''got an unexpected keyword argument '' @ quote k))), t)
     | None \<Rightarrow>
         (case map_of params ''action'' of
            None \<Rightarrow>
              (Inl (Exn ''TypeError'' (''SystemController.control_volume() '' @
                 ''missing 1 required positional argument: '' @ quote ''action'')), t)
          | Some action \<Rightarrow> control_volume env sc action (dict_get params ''value'') t))"

section \<open>The AI controller (src/ai_control.py)\<close>

type_synonym message = "string \<times> string"

text \<open>
  \<open>queue.Queue\<close>: \<open>maxsize = 0\<close> is the unbounded queue. \<open>put\<close> on a full bounded queue
  waits for a free slot; no code of the controller ever takes a frame out, so the wait
  does not end and the result is \<open>None\<close>.
\<close>

record 'a py_queue =
  maxsize :: nat
  items :: "'a list"

definition queue_put :: "'a py_queue \<Rightarrow> 'a \<Rightarrow> 'a py_queue option" where
  "queue_put q x =
    (if 0 < maxsize q \<and> maxsize q \<le> length (items q) then None
     else Some (q\<lparr>items := items q @ [x]\<rparr>))"

type_synonym audio_frame = "16 word list"

text \<open>
  The fields of \<open>AIController\<close> that the handlers and the streaming methods read or
  write. \<open>audio_stream = None\<close> is the attribute not being there
  (\<open>hasattr(self, 'audio_stream')\<close> false); \<open>ws\<close> and \<open>ws_thread\<close> are \<open>None\<close> as in
  Python, and the objects stored in them are always true in a condition.
\<close>

record ai_controller =
  api_key :: string
  mode :: string
  system_controller :: system_controller
  sample_rate :: int
  channels :: int
  audio_queue :: "audio_frame py_queue"
  is_recording :: bool
  audio_stream :: "pyval option"
  ws :: "pyval option"
  ws_thread :: "pyval option"
  messages :: "message list"

text \<open>
  \<open>_initialize_messages\<close>; \<open>system_text\<close> is the formatted system prompt (it holds the
  device and the current time).
\<close>

definition initialize_messages :: "string \<Rightarrow> string \<Rightarrow> message list" where
  "initialize_messages system_text initial_prompt =
    [(''system'', system_text)] @
    (if initial_prompt \<noteq> [] then
       [(''user'', initial_prompt), (''assistant'', ''I understand. How can I help you?'')]
     else [])"

definition new_controller :: "string \<Rightarrow> string \<Rightarrow> string \<Rightarrow> string \<Rightarrow> system_controller \<Rightarrow> ai_controller" where
  "new_controller key md system_text initial_prompt sc =
    \<lparr>api_key = key, mode = md, system_controller = sc, sample_rate = 16000, channels = 1,
     audio_queue = \<lparr>maxsize = 0, items = []\<rparr>, is_recording = False,
     audio_stream = None, ws = None, ws_thread = None,
     messages = initialize_messages system_text initial_prompt\<rparr>"

text \<open>\<open>try: ... except Exception as e: return h(e)\<close> around a computation.\<close>

definition try_except :: "(exn + pyval) \<times> trace \<Rightarrow> (exn \<Rightarrow> pyval) \<Rightarrow> (exn + pyval) \<times> trace" where
  "try_except r h = (case r of (Inl e, t) \<Rightarrow> (Inr (h e), t) | (Inr v, t) \<Rightarrow> (Inr v, t))"

text \<open>
  The statements inside the \<open>try\<close> of \<open>handle_system_control\<close>. \<open>control_volume\<close> is
  modelled above; the other four methods of the system controller are calls whose
  outcome the environment decides.
\<close>

definition system_control_body :: "env \<Rightarrow> system_controller \<Rightarrow> string \<Rightarrow> params \<Rightarrow> trace \<Rightarrow> (exn + pyval) \<times> trace" where
  "system_control_body env sc action params t =
    (if action = ''volume'' then call_control_volume env sc params t
     else if action = ''brightness'' then
       invoke env (CallKw ''system_controller.control_brightness'' params) t
     else if action = ''power'' then
       invoke env (CallKw ''system_controller.power_management'' params) t
     else if action = ''window'' then
       invoke env (CallKw ''system_controller.window_management'' params) t
     else if action = ''process'' then
       invoke env (CallKw ''system_controller.process_control'' params) t
     else (Inr (PStr (''Unknown action: '' @ action)), t))"

definition handle_system_control :: "env \<Rightarrow> string \<Rightarrow> params \<Rightarrow> ai_controller \<Rightarrow> trace \<Rightarrow> (exn + pyval) \<times> ai_controller \<times> trace" where
  "handle_system_control env action params c t =
    (case try_except (system_control_body env (system_controller c) action params t)
            (\<lambda>e. PStr (''Error executing '' @ action @ '': '' @ str_exn e)) of
       (r, t') \<Rightarrow> (r, c, t'))"

definition file_operation_body :: "env \<Rightarrow> string \<Rightarrow> params \<Rightarrow> trace \<Rightarrow> (exn + pyval) \<times> trace" where
  "file_operation_body env operation params t =
    (if operation = ''create_file'' then
       invoke env (Call ''file_operations.create_file''
         [dict_get params ''path'', dict_get params ''content'']) t
     else if operation = ''read_file'' then
       invoke env (Call ''file_operations.read_file'' [dict_get params ''path'']) t
     else if operation = ''write_file'' then
       invoke env (Call ''file_operations.write_file''
         [dict_get params ''path'', dict_get params ''content'']) t
     else if operation = ''append_file'' then
       invoke env (Call ''file_operations.append_file''
         [dict_get params ''path'', dict_get params ''content'']) t
     else if operation = ''delete_file'' then
       invoke env (Call ''file_operations.delete_file'' [dict_get params ''path'']) t
     else if operation = ''create_directory'' then
       invoke env (Call ''file_operations.create_directory'' [dict_get params ''path'']) t
     else if operation = ''list_directory'' then
       invoke env (Call ''file_operations.list_directory'' [dict_get params ''path'']) t
     else if operation = ''delete_directory'' then
       invoke env (Call ''file_operations.delete_directory'' [dict_get params ''path'']) t
     else if operation = ''get_file_info'' then
       invoke env (Call ''file_operations.get_file_info'' [dict_get params ''path'']) t
     else if operation = ''get_directory_size'' then
       invoke env (Call ''file_operations.get_directory_size'' [dict_get params ''path'']) t
     else (Inr (PStr ''Invalid file operation''), t))"

definition handle_file_operation :: "env \<Rightarrow> string \<Rightarrow> params \<Rightarrow> ai_controller \<Rightarrow> trace \<Rightarrow> (exn + pyval) \<times> ai_controller \<times> trace" where
  "handle_file_operation env operation params c t =
    (case try_except (file_operation_body env operation params t)
            (\<lambda>e. PStr (''Error in file operation: '' @ str_exn e)) of
       (r, t') \<Rightarrow> (r, c, t'))"

definition terminal_operation_body :: "env \<Rightarrow> string \<Rightarrow> params \<Rightarrow> trace \<Rightarrow> (exn + pyval) \<times> trace" where
  "terminal_operation_body env operation params t =
    (if operation = ''execute_command'' then
       invoke env (Call ''terminal_operations.execute_command'' [dict_get params ''command'']) t
     else if operation = ''execute_command_with_output'' then
       invoke env (Call ''terminal_operations.execute_command_with_output''
         [dict_get params ''command'']) t
     else if operation = ''start_process'' then
       invoke env (Call ''terminal_operations.start_process'' [dict_get params ''process_name'']) t
     else if operation = ''stop_process'' then
       invoke env (Call ''terminal_operations.stop_process'' [dict_get params ''process_name'']) t
     else if operation = ''list_processes'' then
       invoke env (Call ''terminal_operations.list_processes'' []) t
     else if operation = ''get_system_info'' then
       invoke env (Call ''terminal_operations.get_system_info'' []) t
     else if operation = ''get_network_info'' then
       invoke env (Call ''terminal_operations.get_network_info'' []) t
     else (Inr (PStr ''Invalid terminal operation''), t))"

definition handle_terminal_operation :: "env \<Rightarrow> string \<Rightarrow> params \<Rightarrow> ai_controller \<Rightarrow> trace \<Rightarrow> (exn + pyval) \<times> ai_controller \<times> trace" where
  "handle_terminal_operation env operation params c t =
    (case try_except (terminal_operation_body env operation params t)
            (\<lambda>e. PStr (''Error in terminal operation: '' @ str_exn e)) of
       (r, t') \<Rightarrow> (r, c, t'))"

definition web_operation_body :: "env \<Rightarrow> string \<Rightarrow> params \<Rightarrow> trace \<Rightarrow> (exn + pyval) \<times> trace" where
  "web_operation_body env operation params t =
    (if operation = ''search_web'' then
       invoke env (Call ''web_operations.search_web'' [dict_get params ''query'']) t
     else if operation = ''search_images'' then
       invoke env (Call ''web_operations.search_images'' [dict_get params ''query'']) t
     else if operation = ''search_videos'' then
       invoke env (Call ''web_operations.search_videos'' [dict_get params ''query'']) t
     else if operation = ''search_news'' then
       invoke env (Call ''web_operations.search_news'' [dict_get params ''query'']) t
     else if operation = ''search_academic'' then
       invoke env (Call ''web_operations.search_academic'' [dict_get params ''query'']) t
     else if operation = ''download_file'' then
       invoke env (Call ''web_operations.download_file''
         [dict_get params ''url'', dict_get params ''path'']) t
     else if operation = ''download_image'' then
       invoke env (Call ''web_operations.download_image''
         [dict_get params ''url'', dict_get params ''path'']) t
     else if operation = ''download_video'' then
       invoke env (Call ''web_operations.download_video''
         [dict_get params ''url'', dict_get params ''path'']) t
     else (Inr (PStr ''Invalid web operation''), t))"

definition handle_web_operation :: "env \<Rightarrow> string \<Rightarrow> params \<Rightarrow> ai_controller \<Rightarrow> trace \<Rightarrow> (exn + pyval) \<times> ai_controller \<times> trace" where
  "handle_web_operation env operation params c t =
    (case try_except (web_operation_body env operation params t)
            (\<lambda>e. PStr (''Error in web operation: '' @ str_exn e)) of
       (r, t') \<Rightarrow> (r, c, t'))"

text \<open>
  \<open>MediaOperations\<close> (src/media_operations.py) defines \<open>generate_image\<close> and
  \<open>generate_audio\<close> but no \<open>edit_image\<close>, \<open>analyze_image\<close>, \<open>transcribe_audio\<close> or
  \<open>edit_audio\<close>: looking one of these up raises AttributeError before any argument is
  read.
\<close>

definition no_attribute :: "string \<Rightarrow> exn" where
  "no_attribute name =
    Exn ''AttributeError'' (quote ''MediaOperations'' @ '' object has no attribute '' @ quote name)"

definition media_operation_body :: "env \<Rightarrow> string \<Rightarrow> params \<Rightarrow> trace \<Rightarrow> (exn + pyval) \<times> trace" where
  "media_operation_body env operation params t =
    (if operation = ''generate_image'' then
       invoke env (Call ''media_operations.generate_image'' [dict_get params ''prompt'']) t
     else if operation = ''edit_image'' then (Inl (no_attribute ''edit_image''), t)
     else if operation = ''analyze_image'' then (Inl (no_attribute ''analyze_image''), t)
     else if operation = ''generate_audio'' then
       invoke env (Call ''media_operations.generate_audio'' [dict_get params ''text'']) t
     else if operation = ''transcribe_audio'' then (Inl (no_attribute ''transcribe_audio''), t)
     else if operation = ''edit_audio'' then (Inl (no_attribute ''edit_audio''), t)
     else (Inr (PStr ''Invalid media operation''), t))"

definition handle_media_operation :: "env \<Rightarrow> string \<Rightarrow> params \<Rightarrow> ai_controller \<Rightarrow> trace \<Rightarrow> (exn + pyval) \<times> ai_controller \<times> trace" where
  "handle_media_operation env operation params c t =
    (case try_except (media_operation_body env operation params t)
            (\<lambda>e. PStr (''Error in media operation: '' @ str_exn e)) of
       (r, t') \<Rightarrow> (r, c, t'))"

text \<open>
  The values of \<open>available_functions\<close> are the bound methods; calling the value stored
  under a name is calling that method.
\<close>

fun call_handler :: "handler \<Rightarrow> env \<Rightarrow> string \<Rightarrow> params \<Rightarrow> ai_controller \<Rightarrow> trace \<Rightarrow> (exn + pyval) \<times> ai_controller \<times> trace" where
  "call_handler Handle_system_control = handle_system_control"
| "call_handler Handle_file_operation = handle_file_operation"
| "call_handler Handle_terminal_operation = handle_terminal_operation"
| "call_handler Handle_web_operation = handle_web_operation"
| "call_handler Handle_media_operation = handle_media_operation"

text \<open>
  For the operations that the file, terminal, web and media handlers pass on: the
  keys the branch reads with \<open>params.get\<close>, in the order of the method's arguments.
\<close>

definition arguments_read :: "string \<Rightarrow> string list" where
  "arguments_read operation =
    (if operation \<in> {''create_file'', ''write_file'', ''append_file''} then [''path'', ''content'']
     else if operation \<in> {''read_file'', ''delete_file'', ''create_directory'', ''list_directory'',
                            ''delete_directory'', ''get_file_info'', ''get_directory_size''}
       then [''path'']
     else if operation \<in> {''execute_command'', ''execute_command_with_output''} then [''command'']
     else if operation \<in> {''start_process'', ''stop_process''} then [''process_name'']
     else if operation \<in> {''search_web'', ''search_images'', ''search_videos'', ''search_news'',
                            ''search_academic''}
       then [''query'']
     else if operation \<in> {''download_file'', ''download_image'', ''download_video''}
       then [''url'', ''path'']
     else if operation = ''generate_image'' then [''prompt'']
     else if operation = ''generate_audio'' then [''text'']
     else [])"

section \<open>Realtime audio (src/ai_control.py)\<close>

text \<open>
  The \<open>status\<close> argument of the capture callback: whether it is true in a condition,
  and its text.
\<close>

record callback_flags =
  flag_set :: bool
  flag_text :: string

text \<open>
  \<open>_audio_callback\<close>: prints the status when it is set, then puts a copy of the samples
  on the queue. The result is \<open>None\<close> when \<open>put\<close> never returns.
\<close>

definition audio_callback :: "env \<Rightarrow> audio_frame \<Rightarrow> callback_flags \<Rightarrow> ai_controller \<Rightarrow> trace \<Rightarrow> ((exn + unit) \<times> ai_controller \<times> trace) option" where
  "audio_callback env indata status c t =
    (case (if flag_set status then
             invoke env (Call ''print'' [PStr (''Audio callback status: '' @ flag_text status)]) t
           else (Inr PNone, t)) of
       (Inl e, t') \<Rightarrow> Some (Inl e, c, t')
     | (Inr u, t') \<Rightarrow>
         (case queue_put (audio_queue c) indata of
            None \<Rightarrow> None
          | Some q \<Rightarrow> Some (Inr (), c\<lparr>audio_queue := q\<rparr>, t')))"

text \<open>The callback fired once for each frame of a list, with no status set.\<close>

fun capture_frames :: "env \<Rightarrow> audio_frame list \<Rightarrow> ai_controller \<Rightarrow> trace \<Rightarrow> ((exn + unit) \<times> ai_controller \<times> trace) option" where
  "capture_frames env [] c t = Some (Inr (), c, t)"
| "capture_frames env (f # fs) c t =
    (case audio_callback env f \<lparr>flag_set = False, flag_text = []\<rparr> c t of
       None \<Rightarrow> None
     | Some (Inl e, c', t') \<Rightarrow> Some (Inl e, c', t')
     | Some (Inr u, c', t') \<Rightarrow> capture_frames env fs c' t')"

text \<open>The callback fired once for each frame of a list, each with its own status.\<close>

fun fire_callbacks :: "env \<Rightarrow> (audio_frame \<times> callback_flags) list \<Rightarrow> ai_controller \<Rightarrow> trace \<Rightarrow> ((exn + unit) \<times> ai_controller \<times> trace) option" where
  "fire_callbacks env [] c t = Some (Inr (), c, t)"
| "fire_callbacks env ((f, status) # fs) c t =
    (case audio_callback env f status c t of
       None \<Rightarrow> None
     | Some (Inl e, c', t') \<Rightarrow> Some (Inl e, c', t')
     | Some (Inr u, c', t') \<Rightarrow> fire_callbacks env fs c' t')"

text \<open>
  \<open>start_realtime\<close>. It has no \<open>try\<close>: an exception of a call leaves through it, with
  the fields assigned so far kept. The callbacks handed to the constructors and the
  \<open>daemon\<close> flag of the thread are left out of the calls' arguments.
\<close>

definition start_realtime :: "env \<Rightarrow> ai_controller \<Rightarrow> trace \<Rightarrow> (exn + unit) \<times> ai_controller \<times> trace" where
  "start_realtime env c t =
    (if mode c \<noteq> ''realtime'' then (Inr (), c, t)
     else
       (case invoke env (Call ''sounddevice.InputStream''
               [PInt (sample_rate c), PInt (channels c), POther ''numpy.int16'']) t of
          (Inl e, t1) \<Rightarrow> (Inl e, c, t1)
        | (Inr stream, t1) \<Rightarrow>
            (case invoke env (Call ''websocket.WebSocketApp''
                    [PStr ''wss://api.openai.com/v1/audio/speech'',
                     PStr (''Bearer '' @ api_key c)]) t1 of
               (Inl e, t2) \<Rightarrow> (Inl e, c\<lparr>audio_stream := Some stream\<rparr>, t2)
             | (Inr sock, t2) \<Rightarrow>
                 (case invoke env (Call ''threading.Thread'' [sock]) t2 of
                    (Inl e, t3) \<Rightarrow> (Inl e, c\<lparr>audio_stream := Some stream, ws := Some sock\<rparr>, t3)
                  | (Inr th, t3) \<Rightarrow>
                      (case invoke env (Call ''Thread.start'' [th]) t3 of
                         (Inl e, t4) \<Rightarrow>
                           (Inl e, c\<lparr>audio_stream := Some stream, ws := Some sock,
                                      ws_thread := Some th\<rparr>, t4)
                       | (Inr u, t4) \<Rightarrow>
                           (case invoke env (Call ''InputStream.start'' [stream]) t4 of
                              (Inl e, t5) \<Rightarrow>
                                (Inl e, c\<lparr>audio_stream := Some stream, ws := Some sock,
                                           ws_thread := Some th, is_recording := True\<rparr>, t5)
                            | (Inr v, t5) \<Rightarrow>
                                (Inr (), c\<lparr>audio_stream := Some stream, ws := Some sock,
                                            ws_thread := Some th, is_recording := True\<rparr>, t5)))))))"

text \<open>
  \<open>stop_realtime\<close>, in three steps after the flag is cleared: the audio stream (when
  the attribute is there), the websocket and the thread (when not \<open>None\<close>). No field
  but \<open>is_recording\<close> is assigned, and there is no \<open>try\<close>.
\<close>

definition stop_audio_stream :: "env \<Rightarrow> pyval option \<Rightarrow> trace \<Rightarrow> (exn + pyval) \<times> trace" where
  "stop_audio_stream env a t =
    (case a of
       None \<Rightarrow> (Inr PNone, t)
     | Some stream \<Rightarrow>
         (case invoke env (Call ''InputStream.stop'' [stream]) t of
            (Inl e, t1) \<Rightarrow> (Inl e, t1)
          | (Inr u, t1) \<Rightarrow> invoke env (Call ''InputStream.close'' [stream]) t1))"

definition close_ws :: "env \<Rightarrow> pyval option \<Rightarrow> trace \<Rightarrow> (exn + pyval) \<times> trace" where
  "close_ws env w t =
    (case w of None \<Rightarrow> (Inr PNone, t) | Some sock \<Rightarrow> invoke env (Call ''WebSocketApp.close'' [sock]) t)"

definition join_thread :: "env \<Rightarrow> pyval option \<Rightarrow> trace \<Rightarrow> (exn + pyval) \<times> trace" where
  "join_thread env th t =
    (case th of None \<Rightarrow> (Inr PNone, t) | Some thr \<Rightarrow> invoke env (Call ''Thread.join'' [thr]) t)"

definition stop_realtime :: "env \<Rightarrow> ai_controller \<Rightarrow> trace \<Rightarrow> (exn + unit) \<times> ai_controller \<times> trace" where
  "stop_realtime env c t =
    (case stop_audio_stream env (audio_stream c) t of
       (Inl e, t1) \<Rightarrow> (Inl e, c\<lparr>is_recording := False\<rparr>, t1)
     | (Inr u, t1) \<Rightarrow>
         (case close_ws env (ws c) t1 of
            (Inl e, t2) \<Rightarrow> (Inl e, c\<lparr>is_recording := False\<rparr>, t2)
          | (Inr v, t2) \<Rightarrow>
              (case join_thread env (ws_thread c) t2 of
                 (Inl e, t3) \<Rightarrow> (Inl e, c\<lparr>is_recording := False\<rparr>, t3)
               | (Inr w, t3) \<Rightarrow> (Inr (), c\<lparr>is_recording := False\<rparr>, t3))))"

text \<open>
  For comparison with \<open>stop_realtime\<close>: the calls a stop has to make for a controller,
  in order, and a list of calls run one after the other up to the first that raises.
\<close>

definition stop_calls :: "ai_controller \<Rightarrow> call list" where
  "stop_calls c =
    (case audio_stream c of
       None \<Rightarrow> []
     | Some s \<Rightarrow> [Call ''InputStream.stop'' [s], Call ''InputStream.close'' [s]]) @
    (case ws c of None \<Rightarrow> [] | Some w \<Rightarrow> [Call ''WebSocketApp.close'' [w]]) @
    (case ws_thread c of None \<Rightarrow> [] | Some th \<Rightarrow> [Call ''Thread.join'' [th]])"

fun run_calls :: "env \<Rightarrow> call list \<Rightarrow> trace \<Rightarrow> (exn + unit) \<times> trace" where
  "run_calls env [] t = (Inr (), t)"
| "run_calls env (x # xs) t =
    (case env t x of Inl e \<Rightarrow> (Inl e, t @ [x]) | Inr r \<Rightarrow> run_calls env xs (t @ [x]))"

section \<open>Text predicates and sample environments\<close>

fun starts_with :: "string \<Rightarrow> string \<Rightarrow> bool" where
  "starts_with [] s = True"
| "starts_with (p # ps) [] = False"
| "starts_with (p # ps) (x # xs) = (p = x \<and> starts_with ps xs)"

fun contains_text :: "string \<Rightarrow> string \<Rightarrow> bool" where
  "contains_text p [] = (p = [])"
| "contains_text p (x # xs) = (starts_with p (x # xs) \<or> contains_text p xs)"

text \<open>An environment in which every call returns, each with a new object.\<close>

definition env_fresh :: env where
  "env_fresh t c = Inr (PInt (int (length t)))"

text \<open>An environment in which every call returns the text \<open>ok\<close>.\<close>

definition env_ok :: env where
  "env_ok t c = Inr (PStr ''ok'')"

text \<open>An environment in which every call raises.\<close>

definition env_raise :: env where
  "env_raise t c = Inl (Exn ''RuntimeError'' ''boom'')"

definition linux_controller :: "string \<Rightarrow> ai_controller" where
  "linux_controller md =
    new_controller ''key'' md ''You are an AI assistant'' []
      (setup_platform_specific_imports ''linux'' False)"

text \<open>
  A controller in realtime mode after \<open>start_realtime\<close>, and after
  \<open>stop_realtime\<close> on top of it, both in the environment that returns from every call.
\<close>

definition started_controller :: "(exn + unit) \<times> ai_controller \<times> trace" where
  "started_controller = start_realtime env_fresh (linux_controller ''realtime'') []"

definition stopped_controller :: "(exn + unit) \<times> ai_controller \<times> trace" where
  "stopped_controller =
     stop_realtime env_fresh (fst (snd started_controller)) (snd (snd started_controller))"

text \<open>An environment in which closing the websocket raises and every other call returns.\<close>

definition env_close_fails :: env where
  "env_close_fails t c =
    (case c of
       Call name args \<Rightarrow>
         if name = ''WebSocketApp.close'' then Inl (Exn ''WebSocketException'' ''close failed'')
         else Inr (PInt (int (length t)))
     | CallKw name kw \<Rightarrow> Inr (PInt (int (length t))))"

section \<open>The handlers return values and leave the controller alone\<close>

lemma try_except_returns: "\<exists>v. fst (try_except r h) = Inr v"
  by (cases r rule: prod.exhaust) (auto simp: try_except_def split: sum.splits)

lemma try_except_Inl: "fst r = Inl e \<Longrightarrow> fst (try_except r h) = Inr (h e)"
  by (cases r) (simp add: try_except_def)

lemma handle_system_control_returns: "\<exists>v. fst (handle_system_control env action params c t) = Inr v"
  by (simp add: handle_system_control_def split_beta try_except_returns)

lemma handle_file_operation_returns: "\<exists>v. fst (handle_file_operation env operation params c t) = Inr v"
  by (simp add: handle_file_operation_def split_beta try_except_returns)

lemma handle_terminal_operation_returns: "\<exists>v. fst (handle_terminal_operation env operation params c t) = Inr v"
  by (simp add: handle_terminal_operation_def split_beta try_except_returns)

lemma handle_web_operation_returns: "\<exists>v. fst (handle_web_operation env operation params c t) = Inr v"
  by (simp add: handle_web_operation_def split_beta try_except_returns)

lemma handle_media_operation_returns: "\<exists>v. fst (handle_media_operation env operation params c t) = Inr v"
  by (simp add: handle_media_operation_def split_beta try_except_returns)

lemma handle_system_control_caught:
  "fst (system_control_body env (system_controller c) action params t) = Inl e \<Longrightarrow>
   fst (handle_system_control env action params c t) =
     Inr (PStr (''Error executing '' @ action @ '': '' @ str_exn e))"
  by (simp add: handle_system_control_def split_beta try_except_Inl)

lemma handle_file_operation_caught:
  "fst (file_operation_body env operation params t) = Inl e \<Longrightarrow>
   fst (handle_file_operation env operation params c t) =
     Inr (PStr (''Error in file operation: '' @ str_exn e))"
  by (simp add: handle_file_operation_def split_beta try_except_Inl)

lemma handle_terminal_operation_caught:
  "fst (terminal_operation_body env operation params t) = Inl e \<Longrightarrow>
   fst (handle_terminal_operation env operation params c t) =
     Inr (PStr (''Error in terminal operation: '' @ str_exn e))"
  by (simp add: handle_terminal_operation_def split_beta try_except_Inl)

lemma handle_web_operation_caught:
  "fst (web_operation_body env operation params t) = Inl e \<Longrightarrow>
   fst (handle_web_operation env operation params c t) =
     Inr (PStr (''Error in web operation: '' @ str_exn e))"
  by (simp add: handle_web_operation_def split_beta try_except_Inl)

lemma handle_media_operation_caught:
  "fst (media_operation_body env operation params t) = Inl e \<Longrightarrow>
   fst (handle_media_operation env operation params c t) =
     Inr (PStr (''Error in media operation: '' @ str_exn e))"
  by (simp add: handle_media_operation_def split_beta try_except_Inl)

lemma handler_keeps_controller:
  "fst (snd (call_handler h env operation params c t)) = c"
  by (cases h)
     (simp_all add: handle_system_control_def handle_file_operation_def
        handle_terminal_operation_def handle_web_operation_def handle_media_operation_def
        split: prod.splits)

section \<open>The registry\<close>

lemma registry_names_distinct: "distinct (map fst available_functions)"
  by (simp add: available_functions_def)

lemma operations_of_concat:
  "concat (map operations_of
     [Handle_system_control, Handle_file_operation, Handle_terminal_operation,
      Handle_web_operation, Handle_media_operation]) = map fst available_functions"
  by (simp add: operations_of_def available_functions_def)

text \<open>
  C9: every operation name is unique across all groups. The dictionary literal of
  \<open>available_functions\<close> writes no name twice, so each registered name stands for
  exactly one handler, and the lists of names of the five groups, put one after the
  other, repeat no name: no name belongs to two groups.
\<close>

theorem available_functions_unique:
  "distinct (map fst available_functions) \<and>
   distinct (concat (map operations_of
     [Handle_system_control, Handle_file_operation, Handle_terminal_operation,
      Handle_web_operation, Handle_media_operation]))"
  by (simp only: operations_of_concat registry_names_distinct)

section \<open>Volume control\<close>

lemma invoke_returns:
  assumes "\<forall>c. \<not> isl (env t c)"
  shows "\<exists>r t'. invoke env c t = (Inr r, t')"
proof -
  from assms have "\<not> isl (env t c)" by blast
  then obtain r where "env t c = Inr r" by (cases "env t c") auto
  then show ?thesis by (simp add: invoke_def)
qed

lemma execute_osascript_returns: "\<exists>r t'. execute_osascript env script t = (Inr r, t')"
  by (cases "env t (Call ''subprocess.run'' [PStr ''osascript'', PStr ''-e'', PStr script])")
     (simp_all add: execute_osascript_def invoke_def)

lemma returns_if:
  "\<exists>r t'. a = (Inr r, t') \<Longrightarrow> \<exists>r t'. b = (Inr r, t') \<Longrightarrow>
   \<exists>r t'. (if c then a else b) = (Inr r, t')"
  by simp

lemma returns_value: "\<exists>r t'. (Inr x, t) = (Inr r, t')"
  by simp

lemma volume_action_returns:
  assumes "\<forall>c. \<not> isl (env t c)"
  shows "\<exists>r t'. volume_action env sys action value t = (Inr r, t')"
  unfolding volume_action_def
  by (intro returns_if invoke_returns [of env t, OF assms] execute_osascript_returns returns_value)

lemma control_volume_success:
  assumes "map_of (supported_features sc) ''volume'' = Some True"
      and "\<forall>c. \<not> isl (env t c)"
  shows "fst (control_volume env sc action value t) =
           Inr (PStr (''Volume '' @ py_str action @ '' successful''))"
proof -
  obtain r t' where "volume_action env (system sc) action value t = (Inr r, t')"
    using volume_action_returns [of env t, OF assms(2)] by blast
  with assms(1) show ?thesis by (simp add: control_volume_def)
qed

lemma volume_action_no_branch:
  "action \<notin> {PStr ''mute'', PStr ''unmute'', PStr ''up'', PStr ''down'', PStr ''set''} \<or>
   sys = ''windows'' \<and> action = PStr ''unmute'' \<or>
   sys \<notin> {''windows'', ''darwin'', ''linux''} \<Longrightarrow>
   volume_action env sys action value t = (Inr PNone, t)"
  unfolding volume_action_def by auto

lemma control_volume_no_branch:
  assumes "map_of (supported_features sc) ''volume'' = Some True"
      and "action \<notin> {PStr ''mute'', PStr ''unmute'', PStr ''up'', PStr ''down'', PStr ''set''} \<or>
           system sc = ''windows'' \<and> action = PStr ''unmute'' \<or>
           system sc \<notin> {''windows'', ''darwin'', ''linux''}"
  shows "control_volume env sc action value t =
           (Inr (PStr (''Volume '' @ py_str action @ '' successful'')), t)"
  using assms(1) volume_action_no_branch [OF assms(2)] by (simp add: control_volume_def)

text \<open>
  C4: when \<open>supported_features['volume']\<close> is false, \<open>control_volume\<close> returns the
  message "Volume control is not supported on this system" for every action and value,
  and the trace of calls is the one it started with: the check comes first and nothing
  is attempted. The witness is an unknown platform, for which
  \<open>_setup_platform_specific_imports\<close> switches every feature off, with action "set" and
  value 150.
\<close>

theorem control_volume_unsupported:
  "map_of (supported_features sc) ''volume'' = Some False \<Longrightarrow>
   control_volume env sc action value t =
     (Inr (PStr ''Volume control is not supported on this system''), t)"
  by (simp add: control_volume_def)

theorem control_volume_unsupported_witness:
  "map_of (supported_features (setup_platform_specific_imports ''freebsd'' False)) ''volume'' = Some False \<and>
   control_volume env_fresh (setup_platform_specific_imports ''freebsd'' False) (PStr ''set'') (PInt 150) [] =
     (Inr (PStr ''Volume control is not supported on this system''), [])"
  using control_volume_unsupported [of "setup_platform_specific_imports ''freebsd'' False"
      env_fresh "PStr ''set''" "PInt 150" "[]"]
  by (simp add: setup_platform_specific_imports_def all_features_def)

text \<open>
  C10: when volume is supported, \<open>control_volume\<close> answers "Volume <action> successful"
  for every action whenever no call it makes raises; and when no branch matches (an
  action outside mute, unmute, up, down and set, "unmute" on Windows, or a platform
  that is none of the three) it answers so without having made any call.
\<close>

theorem control_volume_reports_success:
  assumes "map_of (supported_features sc) ''volume'' = Some True"
  shows "((\<forall>c. \<not> isl (env t c)) \<longrightarrow>
            fst (control_volume env sc action value t) =
              Inr (PStr (''Volume '' @ py_str action @ '' successful''))) \<and>
         (action \<notin> {PStr ''mute'', PStr ''unmute'', PStr ''up'', PStr ''down'', PStr ''set''} \<or>
          system sc = ''windows'' \<and> action = PStr ''unmute'' \<or>
          system sc \<notin> {''windows'', ''darwin'', ''linux''} \<longrightarrow>
            control_volume env sc action value t =
              (Inr (PStr (''Volume '' @ py_str action @ '' successful'')), t))"
proof (intro conjI impI)
  assume "\<forall>c. \<not> isl (env t c)"
  then show "fst (control_volume env sc action value t) =
      Inr (PStr (''Volume '' @ py_str action @ '' successful''))"
    by (rule control_volume_success [OF assms])
next
  assume "action \<notin> {PStr ''mute'', PStr ''unmute'', PStr ''up'', PStr ''down'', PStr ''set''} \<or>
          system sc = ''windows'' \<and> action = PStr ''unmute'' \<or>
          system sc \<notin> {''windows'', ''darwin'', ''linux''}"
  then show "control_volume env sc action value t =
      (Inr (PStr (''Volume '' @ py_str action @ '' successful'')), t)"
    by (rule control_volume_no_branch [OF assms])
qed

theorem control_volume_reports_success_witness:
  "map_of (supported_features (setup_platform_specific_imports ''windows'' False)) ''volume'' = Some True \<and>
   (\<forall>c. \<not> isl (env_fresh [] c)) \<and>
   control_volume env_fresh (setup_platform_specific_imports ''windows'' False) (PStr ''unmute'') PNone [] =
     (Inr (PStr ''Volume unmute successful''), []) \<and>
   fst (control_volume env_fresh (setup_platform_specific_imports ''windows'' False) (PStr ''dance'') (PInt 3) []) =
     Inr (PStr ''Volume dance successful'')"
proof -
  let ?sc = "setup_platform_specific_imports ''windows'' False"
  have s: "map_of (supported_features ?sc) ''volume'' = Some True"
    by (simp add: setup_platform_specific_imports_def all_features_def)
  have e: "\<forall>c. \<not> isl (env_fresh [] c)" by (simp add: env_fresh_def)
  have w: "system ?sc = ''windows''" by (simp add: setup_platform_specific_imports_def)
  from control_volume_reports_success [OF s, of env_fresh "[]" "PStr ''unmute''" PNone]
       control_volume_reports_success [OF s, of env_fresh "[]" "PStr ''dance''" "PInt 3"] s e w
  show ?thesis by simp
qed

section \<open>Exceptions at the handlers\<close>

lemma handler_returns: "\<exists>v. fst (call_handler h env operation params c t) = Inr v"
  by (cases h)
     (simp_all add: handle_system_control_returns handle_file_operation_returns
        handle_terminal_operation_returns handle_web_operation_returns
        handle_media_operation_returns)

lemma file_body_raise:
  "fst (file_operation_body env_raise ''read_file'' [(''path'', PStr ''missing.txt'')] []) =
     Inl (Exn ''RuntimeError'' ''boom'')"
  by (simp add: file_operation_body_def invoke_def env_raise_def)

lemma terminal_body_raise:
  "fst (terminal_operation_body env_raise ''list_processes'' [] []) = Inl (Exn ''RuntimeError'' ''boom'')"
  by (simp add: terminal_operation_body_def invoke_def env_raise_def)

lemma web_body_raise:
  "fst (web_operation_body env_raise ''search_web'' [] []) = Inl (Exn ''RuntimeError'' ''boom'')"
  by (simp add: web_operation_body_def invoke_def env_raise_def)

lemma media_body_raise:
  "fst (media_operation_body env_ok ''edit_image'' [] []) = Inl (no_attribute ''edit_image'')"
  by (simp add: media_operation_body_def)

lemma system_body_raise:
  "fst (system_control_body env_raise (system_controller (linux_controller ''text'')) ''power''
          [(''action'', PStr ''sleep'')] []) = Inl (Exn ''RuntimeError'' ''boom'')"
  by (simp add: system_control_body_def invoke_def env_raise_def)

text \<open>
  C1, as the code has it: none of the five handlers ever lets an exception through,
  whatever the operation name and the arguments. An exception raised inside the
  \<open>try\<close> of \<open>handle_file_operation\<close>, \<open>handle_terminal_operation\<close>,
  \<open>handle_web_operation\<close> or \<open>handle_media_operation\<close> comes back as the text
  "Error in <group> operation: <detail>"; \<open>handle_system_control\<close> catches it as well,
  but its text is "Error executing <action>: <detail>", with the action name it was
  called with.
\<close>

theorem handlers_convert_exceptions:
  "(\<exists>v. fst (call_handler h env operation params c t) = Inr v) \<and>
   (fst (file_operation_body env operation params t) = Inl e \<longrightarrow>
      fst (handle_file_operation env operation params c t) =
        Inr (PStr (''Error in file operation: '' @ str_exn e))) \<and>
   (fst (terminal_operation_body env operation params t) = Inl e \<longrightarrow>
      fst (handle_terminal_operation env operation params c t) =
        Inr (PStr (''Error in terminal operation: '' @ str_exn e))) \<and>
   (fst (web_operation_body env operation params t) = Inl e \<longrightarrow>
      fst (handle_web_operation env operation params c t) =
        Inr (PStr (''Error in web operation: '' @ str_exn e))) \<and>
   (fst (media_operation_body env operation params t) = Inl e \<longrightarrow>
      fst (handle_media_operation env operation params c t) =
        Inr (PStr (''Error in media operation: '' @ str_exn e))) \<and>
   (fst (system_control_body env (system_controller c) operation params t) = Inl e \<longrightarrow>
      fst (handle_system_control env operation params c t) =
        Inr (PStr (''Error executing '' @ operation @ '': '' @ str_exn e)))"
  by (intro conjI impI handler_returns handle_file_operation_caught
        handle_terminal_operation_caught handle_web_operation_caught
        handle_media_operation_caught handle_system_control_caught)

theorem handlers_convert_exceptions_witness:
  "fst (file_operation_body env_raise ''read_file'' [(''path'', PStr ''missing.txt'')] []) =
     Inl (Exn ''RuntimeError'' ''boom'') \<and>
   fst (handle_file_operation env_raise ''read_file'' [(''path'', PStr ''missing.txt'')]
          (linux_controller ''text'') []) = Inr (PStr ''Error in file operation: boom'') \<and>
   fst (terminal_operation_body env_raise ''list_processes'' [] []) = Inl (Exn ''RuntimeError'' ''boom'') \<and>
   fst (handle_terminal_operation env_raise ''list_processes'' [] (linux_controller ''text'') []) =
     Inr (PStr ''Error in terminal operation: boom'') \<and>
   fst (web_operation_body env_raise ''search_web'' [] []) = Inl (Exn ''RuntimeError'' ''boom'') \<and>
   fst (handle_web_operation env_raise ''search_web'' [] (linux_controller ''text'') []) =
     Inr (PStr ''Error in web operation: boom'') \<and>
   fst (media_operation_body env_ok ''edit_image'' [] []) = Inl (no_attribute ''edit_image'') \<and>
   fst (handle_media_operation env_ok ''edit_image'' [] (linux_controller ''text'') []) =
     Inr (PStr (''Error in media operation: '' @ quote ''MediaOperations'' @
                '' object has no attribute '' @ quote ''edit_image'')) \<and>
   fst (system_control_body env_raise (system_controller (linux_controller ''text'')) ''power''
          [(''action'', PStr ''sleep'')] []) = Inl (Exn ''RuntimeError'' ''boom'') \<and>
   fst (handle_system_control env_raise ''power'' [(''action'', PStr ''sleep'')]
          (linux_controller ''text'') []) = Inr (PStr ''Error executing power: boom'')"
  using
    handlers_convert_exceptions [of Handle_file_operation env_raise "''read_file''"
      "[(''path'', PStr ''missing.txt'')]" "linux_controller ''text''" "[]" "Exn ''RuntimeError'' ''boom''"]
    handlers_convert_exceptions [of Handle_file_operation env_raise "''list_processes''"
      "[]" "linux_controller ''text''" "[]" "Exn ''RuntimeError'' ''boom''"]
    handlers_convert_exceptions [of Handle_file_operation env_raise "''search_web''"
      "[]" "linux_controller ''text''" "[]" "Exn ''RuntimeError'' ''boom''"]
    handlers_convert_exceptions [of Handle_file_operation env_ok "''edit_image''"
      "[]" "linux_controller ''text''" "[]" "no_attribute ''edit_image''"]
    handlers_convert_exceptions [of Handle_file_operation env_raise "''power''"
      "[(''action'', PStr ''sleep'')]" "linux_controller ''text''" "[]" "Exn ''RuntimeError'' ''boom''"]
    file_body_raise terminal_body_raise web_body_raise media_body_raise system_body_raise
  by (simp add: no_attribute_def)

text \<open>
  The claim as written fails for \<open>handle_system_control\<close>: called with the action
  "volume" and no arguments, the TypeError of the call is caught, and the text starts
  with "Error executing volume: ", which is not of the form
  "Error in <group> operation: <detail>".
\<close>

theorem handle_system_control_message_counterexample:
  "fst (system_control_body env_ok (system_controller (linux_controller ''text'')) ''volume'' [] []) =
     Inl (Exn ''TypeError'' (''SystemController.control_volume() missing 1 required positional argument: '' @
            quote ''action'')) \<and>
   fst (handle_system_control env_ok ''volume'' [] (linux_controller ''text'') []) =
     Inr (PStr (''Error executing volume: SystemController.control_volume() '' @
                ''missing 1 required positional argument: '' @ quote ''action'')) \<and>
   \<not> (\<exists>group detail. fst (handle_system_control env_ok ''volume'' [] (linux_controller ''text'') []) =
          Inr (PStr (''Error in '' @ group @ '' operation: '' @ detail))) \<and>
   fst (handle_system_control env_raise ''power'' [(''action'', PStr ''sleep'')]
          (linux_controller ''text'') []) = Inr (PStr ''Error executing power: boom'')"
  by (simp add: handle_system_control_def system_control_body_def call_control_volume_def
        try_except_def invoke_def env_raise_def)

section \<open>Names outside the registry, and the transcript\<close>

lemma unregistered_names:
  assumes "name \<notin> set (map fst available_functions)"
  shows "file_operation_body env name params t = (Inr (PStr ''Invalid file operation''), t)"
    and "terminal_operation_body env name params t = (Inr (PStr ''Invalid terminal operation''), t)"
    and "web_operation_body env name params t = (Inr (PStr ''Invalid web operation''), t)"
    and "media_operation_body env name params t = (Inr (PStr ''Invalid media operation''), t)"
  using assms
  by (simp_all add: available_functions_def file_operation_body_def terminal_operation_body_def
        web_operation_body_def media_operation_body_def)

lemma unknown_action:
  "name \<notin> {''volume'', ''brightness'', ''power'', ''window'', ''process''} \<Longrightarrow>
   handle_system_control env name params c t = (Inr (PStr (''Unknown action: '' @ name)), c, t)"
  by (simp add: handle_system_control_def system_control_body_def try_except_def)

lemma volume_routed:
  "name = ''volume'' \<Longrightarrow>
   handle_system_control env name params c t =
     (case call_control_volume env (system_controller c) params t of
        (Inl e, t') \<Rightarrow> (Inr (PStr (''Error executing volume: '' @ str_exn e)), c, t')
      | (Inr v, t') \<Rightarrow> (Inr v, c, t'))"
  by (simp add: handle_system_control_def system_control_body_def try_except_def
        split: prod.splits sum.splits)

lemma brightness_routed:
  "name = ''brightness'' \<Longrightarrow>
   handle_system_control env name params c t =
     ((case env t (CallKw ''system_controller.control_brightness'' params) of
         Inl e \<Rightarrow> Inr (PStr (''Error executing brightness: '' @ str_exn e))
       | Inr v \<Rightarrow> Inr v),
      c, t @ [CallKw ''system_controller.control_brightness'' params])"
  by (simp add: handle_system_control_def system_control_body_def try_except_def invoke_def
        split: sum.splits)

lemma power_routed:
  "name = ''power'' \<Longrightarrow>
   handle_system_control env name params c t =
     ((case env t (CallKw ''system_controller.power_management'' params) of
         Inl e \<Rightarrow> Inr (PStr (''Error executing power: '' @ str_exn e))
       | Inr v \<Rightarrow> Inr v),
      c, t @ [CallKw ''system_controller.power_management'' params])"
  by (simp add: handle_system_control_def system_control_body_def try_except_def invoke_def
        split: sum.splits)

lemma window_routed:
  "name = ''window'' \<Longrightarrow>
   handle_system_control env name params c t =
     ((case env t (CallKw ''system_controller.window_management'' params) of
         Inl e \<Rightarrow> Inr (PStr (''Error executing window: '' @ str_exn e))
       | Inr v \<Rightarrow> Inr v),
      c, t @ [CallKw ''system_controller.window_management'' params])"
  by (simp add: handle_system_control_def system_control_body_def try_except_def invoke_def
        split: sum.splits)

lemma process_routed:
  "name = ''process'' \<Longrightarrow>
   handle_system_control env name params c t =
     ((case env t (CallKw ''system_controller.process_control'' params) of
         Inl e \<Rightarrow> Inr (PStr (''Error executing process: '' @ str_exn e))
       | Inr v \<Rightarrow> Inr v),
      c, t @ [CallKw ''system_controller.process_control'' params])"
  by (simp add: handle_system_control_def system_control_body_def try_except_def invoke_def
        split: sum.splits)

lemma brightness_unregistered: "''brightness'' \<notin> set (map fst available_functions)"
  by (simp add: available_functions_def)

lemma linux_volume_supported:
  "map_of (supported_features (system_controller (linux_controller md))) ''volume'' = Some True"
  by (simp add: linux_controller_def new_controller_def setup_platform_specific_imports_def
        all_features_def)

lemma linux_system: "system (system_controller (linux_controller md)) = ''linux''"
  by (simp add: linux_controller_def new_controller_def setup_platform_specific_imports_def)

lemma foo_unregistered: "''foo'' \<notin> set (map fst available_functions)"
  by (simp add: available_functions_def)

lemma volume_unregistered: "''volume'' \<notin> set (map fst available_functions)"
  by (simp add: available_functions_def)

text \<open>
  C2, as the code has it: for a name that is not a key of \<open>available_functions\<close>, the
  file, terminal, web and media handlers return the fixed text
  "Invalid <group> operation", with no call made and the controller unchanged.
  \<open>handle_system_control\<close> returns "Unknown action: <name>", again with no call made,
  unless the name is one of volume, brightness, power, window and process. These five
  are no keys of the registry, and it routes them: volume to \<open>control_volume\<close> with the
  arguments as keywords, each of the other four to one call of the controller's method;
  the result is the method's value, or "Error executing <name>: <detail>" when it
  raises. In every case the list of messages has the length it had.
\<close>

theorem unregistered_operation_result:
  assumes "name \<notin> set (map fst available_functions)"
  shows "handle_file_operation env name params c t = (Inr (PStr ''Invalid file operation''), c, t) \<and>
         handle_terminal_operation env name params c t =
           (Inr (PStr ''Invalid terminal operation''), c, t) \<and>
         handle_web_operation env name params c t = (Inr (PStr ''Invalid web operation''), c, t) \<and>
         handle_media_operation env name params c t = (Inr (PStr ''Invalid media operation''), c, t) \<and>
         (name \<notin> {''volume'', ''brightness'', ''power'', ''window'', ''process''} \<longrightarrow>
            handle_system_control env name params c t =
              (Inr (PStr (''Unknown action: '' @ name)), c, t)) \<and>
         length (messages (fst (snd (call_handler h env name params c t)))) = length (messages c) \<and>
         (name = ''volume'' \<longrightarrow>
   handle_system_control env name params c t =
     (case call_control_volume env (system_controller c) params t of
        (Inl e, t') \<Rightarrow> (Inr (PStr (''Error executing volume: '' @ str_exn e)), c, t')
      | (Inr v, t') \<Rightarrow> (Inr v, c, t'))) \<and>
         (name = ''brightness'' \<longrightarrow>
   handle_system_control env name params c t =
     ((case env t (CallKw ''system_controller.control_brightness'' params) of
         Inl e \<Rightarrow> Inr (PStr (''Error executing brightness: '' @ str_exn e))
       | Inr v \<Rightarrow> Inr v),
      c, t @ [CallKw ''system_controller.control_brightness'' params])) \<and>
         (name = ''power'' \<longrightarrow>
   handle_system_control env name params c t =
     ((case env t (CallKw ''system_controller.power_management'' params) of
         Inl e \<Rightarrow> Inr (PStr (''Error executing power: '' @ str_exn e))
       | Inr v \<Rightarrow> Inr v),
      c, t @ [CallKw ''system_controller.power_management'' params])) \<and>
         (name = ''window'' \<longrightarrow>
   handle_system_control env name params c t =
     ((case env t (CallKw ''system_controller.window_management'' params) of
         Inl e \<Rightarrow> Inr (PStr (''Error executing window: '' @ str_exn e))
       | Inr v \<Rightarrow> Inr v),
      c, t @ [CallKw ''system_controller.window_management'' params])) \<and>
         (name = ''process'' \<longrightarrow>
   handle_system_control env name params c t =
     ((case env t (CallKw ''system_controller.process_control'' params) of
         Inl e \<Rightarrow> Inr (PStr (''Error executing process: '' @ str_exn e))
       | Inr v \<Rightarrow> Inr v),
      c, t @ [CallKw ''system_controller.process_control'' params]))"
proof -
  have old: "handle_file_operation env name params c t = (Inr (PStr ''Invalid file operation''), c, t) \<and>
         handle_terminal_operation env name params c t =
           (Inr (PStr ''Invalid terminal operation''), c, t) \<and>
         handle_web_operation env name params c t = (Inr (PStr ''Invalid web operation''), c, t) \<and>
         handle_media_operation env name params c t = (Inr (PStr ''Invalid media operation''), c, t) \<and>
         (name \<notin> {''volume'', ''brightness'', ''power'', ''window'', ''process''} \<longrightarrow>
            handle_system_control env name params c t =
              (Inr (PStr (''Unknown action: '' @ name)), c, t)) \<and>
         length (messages (fst (snd (call_handler h env name params c t)))) = length (messages c)"
  using unregistered_names [OF assms, of env params t] unknown_action [of name env params c t]
    by (simp add: handle_file_operation_def handle_terminal_operation_def handle_web_operation_def
          handle_media_operation_def try_except_def handler_keeps_controller)
  have vo: "name = ''volume'' \<longrightarrow>
   handle_system_control env name params c t =
     (case call_control_volume env (system_controller c) params t of
        (Inl e, t') \<Rightarrow> (Inr (PStr (''Error executing volume: '' @ str_exn e)), c, t')
      | (Inr v, t') \<Rightarrow> (Inr v, c, t'))"
    by (rule impI) (rule volume_routed)
  have br: "name = ''brightness'' \<longrightarrow>
   handle_system_control env name params c t =
     ((case env t (CallKw ''system_controller.control_brightness'' params) of
         Inl e \<Rightarrow> Inr (PStr (''Error executing brightness: '' @ str_exn e))
       | Inr v \<Rightarrow> Inr v),
      c, t @ [CallKw ''system_controller.control_brightness'' params])"
    by (rule impI) (rule brightness_routed)
  have po: "name = ''power'' \<longrightarrow>
   handle_system_control env name params c t =
     ((case env t (CallKw ''system_controller.power_management'' params) of
         Inl e \<Rightarrow> Inr (PStr (''Error executing power: '' @ str_exn e))
       | Inr v \<Rightarrow> Inr v),
      c, t @ [CallKw ''system_controller.power_management'' params])"
    by (rule impI) (rule power_routed)
  have wi: "name = ''window'' \<longrightarrow>
   handle_system_control env name params c t =
     ((case env t (CallKw ''system_controller.window_management'' params) of
         Inl e \<Rightarrow> Inr (PStr (''Error executing window: '' @ str_exn e))
       | Inr v \<Rightarrow> Inr v),
      c, t @ [CallKw ''system_controller.window_management'' params])"
    by (rule impI) (rule window_routed)
  have pr: "name = ''process'' \<longrightarrow>
   handle_system_control env name params c t =
     ((case env t (CallKw ''system_controller.process_control'' params) of
         Inl e \<Rightarrow> Inr (PStr (''Error executing process: '' @ str_exn e))
       | Inr v \<Rightarrow> Inr v),
      c, t @ [CallKw ''system_controller.process_control'' params])"
    by (rule impI) (rule process_routed)
  from old vo br po wi pr show ?thesis
    by - (elim conjE, intro conjI, assumption+)
qed

theorem unregistered_operation_result_witness:
  "''foo'' \<notin> set (map fst available_functions) \<and>
   handle_file_operation env_ok ''foo'' [] (linux_controller ''text'') [] =
     (Inr (PStr ''Invalid file operation''), linux_controller ''text'', []) \<and>
   handle_system_control env_ok ''foo'' [] (linux_controller ''text'') [] =
     (Inr (PStr ''Unknown action: foo''), linux_controller ''text'', []) \<and>
   length (messages (fst (snd (call_handler Handle_web_operation env_ok ''foo'' []
       (linux_controller ''text'') [])))) = length (messages (linux_controller ''text'')) \<and>
   ''brightness'' \<notin> set (map fst available_functions) \<and>
   handle_system_control env_ok ''brightness'' [(''action'', PStr ''up'')] (linux_controller ''text'') [] =
     (Inr (PStr ''ok''), linux_controller ''text'',
      [CallKw ''system_controller.control_brightness'' [(''action'', PStr ''up'')]]) \<and>
   ''volume'' \<notin> set (map fst available_functions) \<and>
   handle_system_control env_ok ''volume'' [(''action'', PStr ''mute'')] (linux_controller ''text'') [] =
     (Inr (PStr ''Volume mute successful''), linux_controller ''text'',
      [Call ''os.system'' [PStr ''amixer -D pulse sset Master mute'']])"
proof -
  note f = unregistered_operation_result [OF foo_unregistered, of env_ok "[]"
      "linux_controller ''text''" "[]" Handle_web_operation]
  from f [THEN conjunct1]
  have a: "handle_file_operation env_ok ''foo'' [] (linux_controller ''text'') [] =
     (Inr (PStr ''Invalid file operation''), linux_controller ''text'', [])" .
  from f [THEN conjunct2, THEN conjunct2, THEN conjunct2, THEN conjunct2, THEN conjunct1]
  have b: "handle_system_control env_ok ''foo'' [] (linux_controller ''text'') [] =
     (Inr (PStr ''Unknown action: foo''), linux_controller ''text'', [])" by simp
  from f [THEN conjunct2, THEN conjunct2, THEN conjunct2, THEN conjunct2, THEN conjunct2,
      THEN conjunct1]
  have l: "length (messages (fst (snd (call_handler Handle_web_operation env_ok ''foo'' []
       (linux_controller ''text'') [])))) = length (messages (linux_controller ''text''))" .
  from unregistered_operation_result [OF brightness_unregistered, of env_ok
      "[(''action'', PStr ''up'')]" "linux_controller ''text''" "[]",
      THEN conjunct2, THEN conjunct2, THEN conjunct2, THEN conjunct2, THEN conjunct2,
      THEN conjunct2, THEN conjunct2, THEN conjunct1]
  have r: "handle_system_control env_ok ''brightness'' [(''action'', PStr ''up'')]
      (linux_controller ''text'') [] =
     (Inr (PStr ''ok''), linux_controller ''text'',
      [CallKw ''system_controller.control_brightness'' [(''action'', PStr ''up'')]])"
    by (simp add: env_ok_def)
  have k: "call_control_volume env_ok (system_controller (linux_controller ''text''))
      [(''action'', PStr ''mute'')] [] =
      (Inr (PStr ''Volume mute successful''),
       [Call ''os.system'' [PStr ''amixer -D pulse sset Master mute'']])"
    by (simp add: call_control_volume_def control_volume_def volume_action_def invoke_def
          env_ok_def dict_get_def linux_volume_supported linux_system)
  from unregistered_operation_result [OF volume_unregistered, of env_ok
      "[(''action'', PStr ''mute'')]" "linux_controller ''text''" "[]",
      THEN conjunct2, THEN conjunct2, THEN conjunct2, THEN conjunct2, THEN conjunct2,
      THEN conjunct2, THEN conjunct1]
  have v: "handle_system_control env_ok ''volume'' [(''action'', PStr ''mute'')]
      (linux_controller ''text'') [] =
     (Inr (PStr ''Volume mute successful''), linux_controller ''text'',
      [Call ''os.system'' [PStr ''amixer -D pulse sset Master mute'']])"
    by (simp add: k)
  from a b l r v foo_unregistered brightness_unregistered volume_unregistered show ?thesis
    by - (intro conjI, assumption+)
qed

text \<open>
  The claim as written fails: for the unregistered name "foo" the file handler answers
  "Invalid file operation", which does not contain "Unknown action: foo"; and the
  unregistered name "volume" is the one \<open>handle_system_control\<close> does route.
\<close>

theorem unknown_action_text_counterexample:
  "''foo'' \<notin> set (map fst available_functions) \<and>
   fst (handle_file_operation env_ok ''foo'' [] (linux_controller ''text'') []) =
     Inr (PStr ''Invalid file operation'') \<and>
   \<not> contains_text ''Unknown action: foo'' ''Invalid file operation'' \<and>
   ''volume'' \<notin> set (map fst available_functions) \<and>
   fst (handle_system_control env_ok ''volume'' [(''action'', PStr ''up'')]
          (linux_controller ''text'') []) = Inr (PStr ''Volume up successful'')"
proof -
  have a: "fst (handle_file_operation env_ok ''foo'' [] (linux_controller ''text'') []) =
      Inr (PStr ''Invalid file operation'')"
    by (simp add: handle_file_operation_def file_operation_body_def try_except_def)
  have b: "\<not> contains_text ''Unknown action: foo'' ''Invalid file operation''"
    by simp
  have s: "map_of (supported_features (system_controller (linux_controller ''text''))) ''volume'' = Some True"
    by (simp add: linux_controller_def new_controller_def setup_platform_specific_imports_def
          all_features_def)
  have n: "system (system_controller (linux_controller ''text'')) = ''linux''"
    by (simp add: linux_controller_def new_controller_def setup_platform_specific_imports_def)
  have v: "volume_action env_ok ''linux'' (PStr ''up'') PNone [] = (Inr PNone, [])"
    by (simp add: volume_action_def)
  have c: "fst (handle_system_control env_ok ''volume'' [(''action'', PStr ''up'')]
          (linux_controller ''text'') []) = Inr (PStr ''Volume up successful'')"
    using s n v
    by (simp add: handle_system_control_def system_control_body_def call_control_volume_def
          control_volume_def dict_get_def try_except_def)
  from a b c foo_unregistered volume_unregistered show ?thesis by simp
qed

text \<open>
  C3, as the code has it: no handler assigns to \<open>self.messages\<close>. After every
  dispatch, successful or not, the list of messages is the one before the call; no
  entry with role "tool" is appended.
\<close>

theorem handlers_keep_messages:
  "messages (fst (snd (handle_system_control env operation params c t))) = messages c \<and>
   messages (fst (snd (handle_file_operation env operation params c t))) = messages c \<and>
   messages (fst (snd (handle_terminal_operation env operation params c t))) = messages c \<and>
   messages (fst (snd (handle_web_operation env operation params c t))) = messages c \<and>
   messages (fst (snd (handle_media_operation env operation params c t))) = messages c"
  using handler_keeps_controller [of Handle_system_control env operation params c t]
        handler_keeps_controller [of Handle_file_operation env operation params c t]
        handler_keeps_controller [of Handle_terminal_operation env operation params c t]
        handler_keeps_controller [of Handle_web_operation env operation params c t]
        handler_keeps_controller [of Handle_media_operation env operation params c t]
  by simp

text \<open>
  The claim as written fails: a \<open>read_file\<close> dispatch that returns "ok" leaves the
  single system message in the list, with no tool entry after it.
\<close>

theorem no_tool_entry_counterexample:
  "fst (handle_file_operation env_ok ''read_file'' [(''path'', PStr ''notes.txt'')]
          (linux_controller ''text'') []) = Inr (PStr ''ok'') \<and>
   messages (linux_controller ''text'') = [(''system'', ''You are an AI assistant'')] \<and>
   messages (fst (snd (handle_file_operation env_ok ''read_file'' [(''path'', PStr ''notes.txt'')]
          (linux_controller ''text'') []))) = [(''system'', ''You are an AI assistant'')] \<and>
   messages (fst (snd (handle_file_operation env_ok ''read_file'' [(''path'', PStr ''notes.txt'')]
          (linux_controller ''text'') []))) \<noteq>
     messages (linux_controller ''text'') @ [(''tool'', ''ok'')]"
proof -
  have m: "messages (linux_controller ''text'') = [(''system'', ''You are an AI assistant'')]"
    by (simp add: linux_controller_def new_controller_def initialize_messages_def)
  have r: "handle_file_operation env_ok ''read_file'' [(''path'', PStr ''notes.txt'')]
          (linux_controller ''text'') [] =
          (Inr (PStr ''ok''), linux_controller ''text'',
           [Call ''file_operations.read_file'' [PStr ''notes.txt'']])"
    by (simp add: handle_file_operation_def file_operation_body_def try_except_def invoke_def
          env_ok_def dict_get_def)
  show ?thesis by (simp add: r m)
qed

section \<open>The audio queue\<close>

lemma env_returns:
  assumes "\<forall>h call. \<not> isl (env h call)"
  shows "\<exists>r. env h call = Inr r"
proof -
  from assms have "\<not> isl (env h call)" by blast
  then show ?thesis by (cases "env h call") auto
qed

lemma queue_put_unbounded:
  "maxsize q = 0 \<Longrightarrow> queue_put q x = Some (q\<lparr>items := items q @ [x]\<rparr>)"
  by (simp add: queue_put_def)

lemma audio_callback_quiet:
  "maxsize (audio_queue c) = 0 \<Longrightarrow>
   audio_callback env indata \<lparr>flag_set = False, flag_text = txt\<rparr> c t =
     Some (Inr (), c\<lparr>audio_queue := (audio_queue c)\<lparr>items := items (audio_queue c) @ [indata]\<rparr>\<rparr>, t)"
  by (simp add: audio_callback_def queue_put_unbounded)

lemma audio_callback_returns:
  "maxsize (audio_queue c) = 0 \<Longrightarrow> audio_callback env indata status c t \<noteq> None"
  by (simp add: audio_callback_def queue_put_unbounded split: prod.splits sum.splits)

lemma capture_frames_unbounded:
  "maxsize (audio_queue c) = 0 \<Longrightarrow>
   capture_frames env frames c t =
     Some (Inr (), c\<lparr>audio_queue := (audio_queue c)\<lparr>items := items (audio_queue c) @ frames\<rparr>\<rparr>, t)"
proof (induction frames arbitrary: c)
  case Nil
  then show ?case by simp
next
  case (Cons f fs)
  let ?c' = "c\<lparr>audio_queue := (audio_queue c)\<lparr>items := items (audio_queue c) @ [f]\<rparr>\<rparr>"
  have m: "maxsize (audio_queue ?c') = 0" using Cons.prems by simp
  show ?case
    using Cons.IH [OF m] audio_callback_quiet [OF Cons.prems, of env f "[]" t]
    by simp
qed

lemma audio_callback_unflagged:
  "maxsize (audio_queue c) = 0 \<Longrightarrow> \<not> flag_set status \<Longrightarrow>
   audio_callback env indata status c t =
     Some (Inr (), c\<lparr>audio_queue := (audio_queue c)\<lparr>items := items (audio_queue c) @ [indata]\<rparr>\<rparr>, t)"
  by (simp add: audio_callback_def queue_put_unbounded)

lemma audio_callback_flagged:
  "maxsize (audio_queue c) = 0 \<Longrightarrow> flag_set status \<Longrightarrow>
   env t (Call ''print'' [PStr (''Audio callback status: '' @ flag_text status)]) = Inr r \<Longrightarrow>
   audio_callback env indata status c t =
     Some (Inr (), c\<lparr>audio_queue := (audio_queue c)\<lparr>items := items (audio_queue c) @ [indata]\<rparr>\<rparr>,
           t @ [Call ''print'' [PStr (''Audio callback status: '' @ flag_text status)]])"
  by (simp add: audio_callback_def queue_put_unbounded invoke_def)

lemma audio_callback_print_raises:
  "flag_set status \<Longrightarrow>
   env t (Call ''print'' [PStr (''Audio callback status: '' @ flag_text status)]) = Inl e \<Longrightarrow>
   audio_callback env indata status c t =
     Some (Inl e, c, t @ [Call ''print'' [PStr (''Audio callback status: '' @ flag_text status)]])"
  by (simp add: audio_callback_def invoke_def)

lemma audio_callback_appends:
  assumes m: "maxsize (audio_queue c) = 0" and e: "\<forall>h call. \<not> isl (env h call)"
  shows "\<exists>t'. audio_callback env indata status c t =
     Some (Inr (), c\<lparr>audio_queue := (audio_queue c)\<lparr>items := items (audio_queue c) @ [indata]\<rparr>\<rparr>, t')"
proof (cases "flag_set status")
  case True
  obtain r where "env t (Call ''print'' [PStr (''Audio callback status: '' @ flag_text status)]) = Inr r"
    using env_returns [OF e] by blast
  with audio_callback_flagged [OF m True] show ?thesis by blast
next
  case False
  with audio_callback_unflagged [OF m] show ?thesis by blast
qed

lemma fire_callbacks_append:
  assumes e: "\<forall>h call. \<not> isl (env h call)"
  shows "maxsize (audio_queue c) = 0 \<Longrightarrow>
   \<exists>t'. fire_callbacks env fs c t =
     Some (Inr (), c\<lparr>audio_queue :=
             (audio_queue c)\<lparr>items := items (audio_queue c) @ map fst fs\<rparr>\<rparr>, t')"
proof (induction fs arbitrary: c t)
  case Nil
  then show ?case by simp
next
  case (Cons p fs)
  obtain f st where p: "p = (f, st)" by (cases p)
  let ?c' = "c\<lparr>audio_queue := (audio_queue c)\<lparr>items := items (audio_queue c) @ [f]\<rparr>\<rparr>"
  obtain t1 where a: "audio_callback env f st c t = Some (Inr (), ?c', t1)"
    using audio_callback_appends [OF Cons.prems e] by blast
  have m: "maxsize (audio_queue ?c') = 0" using Cons.prems by simp
  obtain t2 where b: "fire_callbacks env fs ?c' t1 =
     Some (Inr (), ?c'\<lparr>audio_queue :=
             (audio_queue ?c')\<lparr>items := items (audio_queue ?c') @ map fst fs\<rparr>\<rparr>, t2)"
    using Cons.IH [OF m] by blast
  show ?case using a b p by simp
qed

lemma linux_queue: "audio_queue (linux_controller md) = \<lparr>maxsize = 0, items = []\<rparr>"
  by (simp add: linux_controller_def new_controller_def)

text \<open>
  C8, as the code has it: \<open>Queue()\<close> is built with no \<open>maxsize\<close>, so the queue is
  unbounded. With \<open>maxsize = 0\<close> the callback never waits, whatever its status. With
  no status set it appends the frame and makes no call; with a status set it prints
  the status first and, when the print returns, appends the frame; only when the print
  raises does the exception leave the callback before the frame is put. The queue
  itself drops nothing: when no call raises, after the callback has fired for a list
  of frames, with any statuses, the queue holds all of them after what it held before.
\<close>

theorem audio_queue_unbounded:
  assumes "maxsize (audio_queue c) = 0"
  shows "audio_callback env indata status c t \<noteq> None \<and>
         audio_callback env indata \<lparr>flag_set = False, flag_text = txt\<rparr> c t =
           Some (Inr (), c\<lparr>audio_queue :=
                   (audio_queue c)\<lparr>items := items (audio_queue c) @ [indata]\<rparr>\<rparr>, t) \<and>
         capture_frames env frames c t =
           Some (Inr (), c\<lparr>audio_queue :=
                   (audio_queue c)\<lparr>items := items (audio_queue c) @ frames\<rparr>\<rparr>, t) \<and>
         (\<not> flag_set status \<longrightarrow>
            audio_callback env indata status c t =
              Some (Inr (), c\<lparr>audio_queue :=
                      (audio_queue c)\<lparr>items := items (audio_queue c) @ [indata]\<rparr>\<rparr>, t)) \<and>
         (flag_set status \<and>
          env t (Call ''print'' [PStr (''Audio callback status: '' @ flag_text status)]) = Inr r \<longrightarrow>
            audio_callback env indata status c t =
              Some (Inr (), c\<lparr>audio_queue :=
                      (audio_queue c)\<lparr>items := items (audio_queue c) @ [indata]\<rparr>\<rparr>,
                    t @ [Call ''print'' [PStr (''Audio callback status: '' @ flag_text status)]])) \<and>
         (flag_set status \<and>
          env t (Call ''print'' [PStr (''Audio callback status: '' @ flag_text status)]) = Inl e \<longrightarrow>
            audio_callback env indata status c t =
              Some (Inl e, c,
                    t @ [Call ''print'' [PStr (''Audio callback status: '' @ flag_text status)]])) \<and>
         ((\<forall>h call. \<not> isl (env h call)) \<longrightarrow>
            (\<exists>t'. fire_callbacks env fs c t =
               Some (Inr (), c\<lparr>audio_queue :=
                       (audio_queue c)\<lparr>items := items (audio_queue c) @ map fst fs\<rparr>\<rparr>, t')))"
proof (intro conjI impI)
  show "audio_callback env indata status c t \<noteq> None"
    by (rule audio_callback_returns [OF assms])
next
  show "audio_callback env indata \<lparr>flag_set = False, flag_text = txt\<rparr> c t =
           Some (Inr (), c\<lparr>audio_queue :=
                   (audio_queue c)\<lparr>items := items (audio_queue c) @ [indata]\<rparr>\<rparr>, t)"
    by (rule audio_callback_quiet [OF assms])
next
  show "capture_frames env frames c t =
           Some (Inr (), c\<lparr>audio_queue :=
                   (audio_queue c)\<lparr>items := items (audio_queue c) @ frames\<rparr>\<rparr>, t)"
    by (rule capture_frames_unbounded [OF assms])
next
  assume "\<not> flag_set status"
  then show "audio_callback env indata status c t =
              Some (Inr (), c\<lparr>audio_queue :=
                      (audio_queue c)\<lparr>items := items (audio_queue c) @ [indata]\<rparr>\<rparr>, t)"
    by (rule audio_callback_unflagged [OF assms])
next
  assume a: "flag_set status \<and>
          env t (Call ''print'' [PStr (''Audio callback status: '' @ flag_text status)]) = Inr r"
  from a have f: "flag_set status" by simp
  from a have p: "env t (Call ''print'' [PStr (''Audio callback status: '' @ flag_text status)]) = Inr r"
    by simp
  show "audio_callback env indata status c t =
              Some (Inr (), c\<lparr>audio_queue :=
                      (audio_queue c)\<lparr>items := items (audio_queue c) @ [indata]\<rparr>\<rparr>,
                    t @ [Call ''print'' [PStr (''Audio callback status: '' @ flag_text status)]])"
    using assms f p by (rule audio_callback_flagged)
next
  assume a: "flag_set status \<and>
          env t (Call ''print'' [PStr (''Audio callback status: '' @ flag_text status)]) = Inl e"
  from a have f: "flag_set status" by simp
  from a have p: "env t (Call ''print'' [PStr (''Audio callback status: '' @ flag_text status)]) = Inl e"
    by simp
  show "audio_callback env indata status c t =
              Some (Inl e, c,
                    t @ [Call ''print'' [PStr (''Audio callback status: '' @ flag_text status)]])"
    using f p by (rule audio_callback_print_raises)
next
  assume n: "\<forall>h call. \<not> isl (env h call)"
  show "\<exists>t'. fire_callbacks env fs c t =
               Some (Inr (), c\<lparr>audio_queue :=
                       (audio_queue c)\<lparr>items := items (audio_queue c) @ map fst fs\<rparr>\<rparr>, t')"
    by (rule fire_callbacks_append [OF n assms])
qed

theorem audio_queue_unbounded_witness:
  "maxsize (audio_queue (linux_controller ''realtime'')) = 0 \<and>
   audio_callback env_ok [1, 2] \<lparr>flag_set = True, flag_text = ''input overflow''\<rparr>
     (linux_controller ''realtime'') [] \<noteq> None \<and>
   capture_frames env_ok [[1, 2], [3, 4], [5, 6]] (linux_controller ''realtime'') [] =
     Some (Inr (), (linux_controller ''realtime'')
        \<lparr>audio_queue := \<lparr>maxsize = 0, items = [[1, 2], [3, 4], [5, 6]]\<rparr>\<rparr>, []) \<and>
   flag_set \<lparr>flag_set = True, flag_text = ''input overflow''\<rparr> \<and>
   env_ok [] (Call ''print'' [PStr ''Audio callback status: input overflow'']) = Inr (PStr ''ok'') \<and>
   audio_callback env_ok [1, 2] \<lparr>flag_set = True, flag_text = ''input overflow''\<rparr>
     (linux_controller ''realtime'') [] =
     Some (Inr (), (linux_controller ''realtime'')\<lparr>audio_queue := \<lparr>maxsize = 0, items = [[1, 2]]\<rparr>\<rparr>,
           [Call ''print'' [PStr ''Audio callback status: input overflow'']]) \<and>
   env_raise [] (Call ''print'' [PStr ''Audio callback status: input overflow'']) =
     Inl (Exn ''RuntimeError'' ''boom'') \<and>
   audio_callback env_raise [1, 2] \<lparr>flag_set = True, flag_text = ''input overflow''\<rparr>
     (linux_controller ''realtime'') [] =
     Some (Inl (Exn ''RuntimeError'' ''boom''), linux_controller ''realtime'',
           [Call ''print'' [PStr ''Audio callback status: input overflow'']]) \<and>
   (\<forall>h call. \<not> isl (env_ok h call)) \<and>
   (\<exists>t'. fire_callbacks env_ok
       [([1, 2], \<lparr>flag_set = True, flag_text = ''input overflow''\<rparr>),
        ([3, 4], \<lparr>flag_set = False, flag_text = []\<rparr>)] (linux_controller ''realtime'') [] =
     Some (Inr (), (linux_controller ''realtime'')
        \<lparr>audio_queue := \<lparr>maxsize = 0, items = [[1, 2], [3, 4]]\<rparr>\<rparr>, t'))"
proof -
  have m: "maxsize (audio_queue (linux_controller ''realtime'')) = 0"
    by (simp add: linux_queue)
  have k: "\<forall>h call. \<not> isl (env_ok h call)" by (simp add: env_ok_def)
  have p: "env_ok [] (Call ''print'' [PStr ''Audio callback status: input overflow'']) = Inr (PStr ''ok'')"
    by (simp add: env_ok_def)
  have q: "env_raise [] (Call ''print'' [PStr ''Audio callback status: input overflow'']) =
     Inl (Exn ''RuntimeError'' ''boom'')"
    by (simp add: env_raise_def)
  from audio_queue_unbounded [OF m, of env_ok "[1, 2]"
        "\<lparr>flag_set = True, flag_text = ''input overflow''\<rparr>" "[]" "[]" "[[1, 2], [3, 4], [5, 6]]"
        "PStr ''ok''" _
        "[([1, 2], \<lparr>flag_set = True, flag_text = ''input overflow''\<rparr>),
          ([3, 4], \<lparr>flag_set = False, flag_text = []\<rparr>)]"] p k
  have a: "audio_callback env_ok [1, 2] \<lparr>flag_set = True, flag_text = ''input overflow''\<rparr>
     (linux_controller ''realtime'') [] \<noteq> None \<and>
   capture_frames env_ok [[1, 2], [3, 4], [5, 6]] (linux_controller ''realtime'') [] =
     Some (Inr (), (linux_controller ''realtime'')
        \<lparr>audio_queue := \<lparr>maxsize = 0, items = [[1, 2], [3, 4], [5, 6]]\<rparr>\<rparr>, []) \<and>
   audio_callback env_ok [1, 2] \<lparr>flag_set = True, flag_text = ''input overflow''\<rparr>
     (linux_controller ''realtime'') [] =
     Some (Inr (), (linux_controller ''realtime'')\<lparr>audio_queue := \<lparr>maxsize = 0, items = [[1, 2]]\<rparr>\<rparr>,
           [Call ''print'' [PStr ''Audio callback status: input overflow'']]) \<and>
   (\<exists>t'. fire_callbacks env_ok
       [([1, 2], \<lparr>flag_set = True, flag_text = ''input overflow''\<rparr>),
        ([3, 4], \<lparr>flag_set = False, flag_text = []\<rparr>)] (linux_controller ''realtime'') [] =
     Some (Inr (), (linux_controller ''realtime'')
        \<lparr>audio_queue := \<lparr>maxsize = 0, items = [[1, 2], [3, 4]]\<rparr>\<rparr>, t'))"
    by (simp add: linux_queue del: capture_frames.simps fire_callbacks.simps)
  from audio_queue_unbounded [OF m, of env_raise "[1, 2]"
        "\<lparr>flag_set = True, flag_text = ''input overflow''\<rparr>" "[]" _ _ _
        "Exn ''RuntimeError'' ''boom''"] q
  have b: "audio_callback env_raise [1, 2] \<lparr>flag_set = True, flag_text = ''input overflow''\<rparr>
     (linux_controller ''realtime'') [] =
     Some (Inl (Exn ''RuntimeError'' ''boom''), linux_controller ''realtime'',
           [Call ''print'' [PStr ''Audio callback status: input overflow'']])"
    by (simp del: capture_frames.simps fire_callbacks.simps)
  have fl: "flag_set \<lparr>flag_set = True, flag_text = ''input overflow''\<rparr>" by simp
  from a b m k p q fl show ?thesis by blast
qed

text \<open>
  The claim as written fails: no capacity bounds the queue of a new controller. For
  every bound there is a run of callbacks after which the queue is longer.
\<close>

theorem audio_queue_bound_counterexample:
  "\<not> (\<exists>cap. \<forall>frames r c' t'.
        capture_frames env_ok frames (linux_controller ''realtime'') [] = Some (r, c', t') \<longrightarrow>
        length (items (audio_queue c')) \<le> cap)"
proof
  assume "\<exists>cap. \<forall>frames r c' t'.
        capture_frames env_ok frames (linux_controller ''realtime'') [] = Some (r, c', t') \<longrightarrow>
        length (items (audio_queue c')) \<le> cap"
  then obtain cap where b: "\<forall>frames r c' t'.
        capture_frames env_ok frames (linux_controller ''realtime'') [] = Some (r, c', t') \<longrightarrow>
        length (items (audio_queue c')) \<le> cap" by blast
  have m: "maxsize (audio_queue (linux_controller ''realtime'')) = 0"
    by (simp add: linux_queue)
  let ?c = "linux_controller ''realtime''"
  let ?fs = "replicate (Suc cap) ([] :: audio_frame)"
  let ?c' = "?c\<lparr>audio_queue := (audio_queue ?c)\<lparr>items := items (audio_queue ?c) @ ?fs\<rparr>\<rparr>"
  have e: "capture_frames env_ok ?fs ?c [] = Some (Inr (), ?c', [])"
    by (rule capture_frames_unbounded [OF m])
  from b e have "length (items (audio_queue ?c')) \<le> cap" by blast
  then have "length ?fs \<le> cap" by (simp add: linux_queue del: replicate.simps)
  then show False by simp
qed

section \<open>Starting the realtime session\<close>



lemma invoke_raise: "fst (invoke env call t) = Inl e \<Longrightarrow> \<exists>h c. env h c = Inl e"
  by (auto simp: invoke_def)



lemma started_value:
  "started_controller =
     (Inr (), (linux_controller ''realtime'')
        \<lparr>audio_stream := Some (PInt 0), ws := Some (PInt 1), ws_thread := Some (PInt 2),
         is_recording := True\<rparr>,
      [Call ''sounddevice.InputStream'' [PInt 16000, PInt 1, POther ''numpy.int16''],
       Call ''websocket.WebSocketApp''
         [PStr ''wss://api.openai.com/v1/audio/speech'', PStr ''Bearer key''],
       Call ''threading.Thread'' [PInt 1], Call ''Thread.start'' [PInt 2],
       Call ''InputStream.start'' [PInt 0]])"
  by (simp add: started_controller_def start_realtime_def invoke_def env_fresh_def
        linux_controller_def new_controller_def)





section \<open>Stopping the realtime session\<close>

lemma stop_never_started:
  "audio_stream c = None \<Longrightarrow> ws c = None \<Longrightarrow> ws_thread c = None \<Longrightarrow>
   stop_realtime env c t = (Inr (), c\<lparr>is_recording := False\<rparr>, t)"
  by (simp add: stop_realtime_def stop_audio_stream_def close_ws_def join_thread_def)

lemma stop_controller: "fst (snd (stop_realtime env c t)) = c\<lparr>is_recording := False\<rparr>"
  by (simp add: stop_realtime_def split: prod.splits sum.splits)

lemma stop_realtime_returns:
  assumes h: "audio_stream c = Some s" "ws c = Some w" "ws_thread c = Some th"
      and e: "\<forall>h call. \<not> isl (env h call)"
  shows "stop_realtime env c t =
           (Inr (), c\<lparr>is_recording := False\<rparr>,
            t @ [Call ''InputStream.stop'' [s], Call ''InputStream.close'' [s],
                 Call ''WebSocketApp.close'' [w], Call ''Thread.join'' [th]])"
proof -
  obtain r1 where r1: "env t (Call ''InputStream.stop'' [s]) = Inr r1"
    using env_returns [OF e] by blast
  obtain r2 where r2: "env (t @ [Call ''InputStream.stop'' [s]]) (Call ''InputStream.close'' [s]) = Inr r2"
    using env_returns [OF e] by blast
  obtain r3 where r3: "env (t @ [Call ''InputStream.stop'' [s], Call ''InputStream.close'' [s]])
      (Call ''WebSocketApp.close'' [w]) = Inr r3"
    using env_returns [OF e] by blast
  obtain r4 where r4: "env (t @ [Call ''InputStream.stop'' [s], Call ''InputStream.close'' [s],
      Call ''WebSocketApp.close'' [w]]) (Call ''Thread.join'' [th]) = Inr r4"
    using env_returns [OF e] by blast
  show ?thesis
    using h r1 r2 r3 r4
    by (simp add: stop_realtime_def stop_audio_stream_def close_ws_def join_thread_def invoke_def)
qed

lemma stop_realtime_raise:
  "fst (stop_realtime env c t) = Inl e \<Longrightarrow> \<exists>h call. env h call = Inl e"
  unfolding stop_realtime_def stop_audio_stream_def close_ws_def join_thread_def invoke_def
  by (simp split: option.splits sum.splits prod.splits) blast+

lemma stop_realtime_run:
  "stop_realtime env c t =
     (case run_calls env (stop_calls c) t of (r, t') \<Rightarrow> (r, c\<lparr>is_recording := False\<rparr>, t'))"
  by (cases "audio_stream c"; cases "ws c"; cases "ws_thread c")
     (simp_all add: stop_realtime_def stop_audio_stream_def close_ws_def join_thread_def
        stop_calls_def invoke_def split: sum.splits)

lemma stop_stop_raises:
  "audio_stream c = Some s \<and> ws c = Some w \<and> ws_thread c = Some th \<and>
   env t (Call ''InputStream.stop'' [s]) = Inl e \<Longrightarrow>
   stop_realtime env c t =
     (Inl e, c\<lparr>is_recording := False\<rparr>,
      t @ [Call ''InputStream.stop'' [s]])"
  by (simp add: stop_realtime_def stop_audio_stream_def close_ws_def join_thread_def invoke_def)

lemma stop_close_raises:
  "audio_stream c = Some s \<and> ws c = Some w \<and> ws_thread c = Some th \<and>
   env t (Call ''InputStream.stop'' [s]) = Inr r1 \<and>
   env (t @ [Call ''InputStream.stop'' [s]]) (Call ''InputStream.close'' [s]) = Inl e \<Longrightarrow>
   stop_realtime env c t =
     (Inl e, c\<lparr>is_recording := False\<rparr>,
      t @ [Call ''InputStream.stop'' [s], Call ''InputStream.close'' [s]])"
  by (simp add: stop_realtime_def stop_audio_stream_def close_ws_def join_thread_def invoke_def)

lemma stop_ws_close_raises:
  "audio_stream c = Some s \<and> ws c = Some w \<and> ws_thread c = Some th \<and>
   env t (Call ''InputStream.stop'' [s]) = Inr r1 \<and>
   env (t @ [Call ''InputStream.stop'' [s]]) (Call ''InputStream.close'' [s]) = Inr r2 \<and>
   env (t @ [Call ''InputStream.stop'' [s], Call ''InputStream.close'' [s]]) (Call ''WebSocketApp.close'' [w]) = Inl e \<Longrightarrow>
   stop_realtime env c t =
     (Inl e, c\<lparr>is_recording := False\<rparr>,
      t @ [Call ''InputStream.stop'' [s], Call ''InputStream.close'' [s], Call ''WebSocketApp.close'' [w]])"
  by (simp add: stop_realtime_def stop_audio_stream_def close_ws_def join_thread_def invoke_def)

lemma stop_join_raises:
  "audio_stream c = Some s \<and> ws c = Some w \<and> ws_thread c = Some th \<and>
   env t (Call ''InputStream.stop'' [s]) = Inr r1 \<and>
   env (t @ [Call ''InputStream.stop'' [s]]) (Call ''InputStream.close'' [s]) = Inr r2 \<and>
   env (t @ [Call ''InputStream.stop'' [s], Call ''InputStream.close'' [s]]) (Call ''WebSocketApp.close'' [w]) = Inr r3 \<and>
   env (t @ [Call ''InputStream.stop'' [s], Call ''InputStream.close'' [s], Call ''WebSocketApp.close'' [w]]) (Call ''Thread.join'' [th]) = Inl e \<Longrightarrow>
   stop_realtime env c t =
     (Inl e, c\<lparr>is_recording := False\<rparr>,
      t @ [Call ''InputStream.stop'' [s], Call ''InputStream.close'' [s], Call ''WebSocketApp.close'' [w], Call ''Thread.join'' [th]])"
  by (simp add: stop_realtime_def stop_audio_stream_def close_ws_def join_thread_def invoke_def)

lemma stop_all_return:
  "audio_stream c = Some s \<and> ws c = Some w \<and> ws_thread c = Some th \<and>
   env t (Call ''InputStream.stop'' [s]) = Inr r1 \<and>
   env (t @ [Call ''InputStream.stop'' [s]]) (Call ''InputStream.close'' [s]) = Inr r2 \<and>
   env (t @ [Call ''InputStream.stop'' [s], Call ''InputStream.close'' [s]]) (Call ''WebSocketApp.close'' [w]) = Inr r3 \<and>
   env (t @ [Call ''InputStream.stop'' [s], Call ''InputStream.close'' [s], Call ''WebSocketApp.close'' [w]]) (Call ''Thread.join'' [th]) = Inr r4 \<Longrightarrow>
   stop_realtime env c t =
     (Inr (), c\<lparr>is_recording := False\<rparr>,
      t @ [Call ''InputStream.stop'' [s], Call ''InputStream.close'' [s], Call ''WebSocketApp.close'' [w], Call ''Thread.join'' [th]])"
  by (simp add: stop_realtime_def stop_audio_stream_def close_ws_def join_thread_def invoke_def)

lemma unset_flag: "\<not> is_recording c \<Longrightarrow> c\<lparr>is_recording := False\<rparr> = c"
  by (cases c) simp

lemma env_fresh_returns: "\<forall>h call. \<not> isl (env_fresh h call)"
  by (simp add: env_fresh_def)

lemma started_handles:
  "audio_stream (fst (snd started_controller)) = Some (PInt 0)"
  "ws (fst (snd started_controller)) = Some (PInt 1)"
  "ws_thread (fst (snd started_controller)) = Some (PInt 2)"
  by (simp_all add: started_value)

lemma stopped_value:
  "stopped_controller =
     (Inr (), (fst (snd started_controller))\<lparr>is_recording := False\<rparr>,
      snd (snd started_controller) @
      [Call ''InputStream.stop'' [PInt 0], Call ''InputStream.close'' [PInt 0],
       Call ''WebSocketApp.close'' [PInt 1], Call ''Thread.join'' [PInt 2]])"
  unfolding stopped_controller_def
  by (rule stop_realtime_returns [OF started_handles env_fresh_returns])

lemma stopped_handles:
  "audio_stream (fst (snd stopped_controller)) = Some (PInt 0)"
  "ws (fst (snd stopped_controller)) = Some (PInt 1)"
  "ws_thread (fst (snd stopped_controller)) = Some (PInt 2)"
  by (simp_all add: stopped_value started_handles)

lemma second_stop_value:
  "stop_realtime env_fresh (fst (snd stopped_controller)) (snd (snd stopped_controller)) =
     (Inr (), (fst (snd stopped_controller))\<lparr>is_recording := False\<rparr>,
      snd (snd stopped_controller) @
      [Call ''InputStream.stop'' [PInt 0], Call ''InputStream.close'' [PInt 0],
       Call ''WebSocketApp.close'' [PInt 1], Call ''Thread.join'' [PInt 2]])"
  by (rule stop_realtime_returns [OF stopped_handles env_fresh_returns])

lemma close_fails_value:
  "stop_realtime env_close_fails (fst (snd started_controller)) (snd (snd started_controller)) =
     (Inl (Exn ''WebSocketException'' ''close failed''),
      (fst (snd started_controller))\<lparr>is_recording := False\<rparr>,
      snd (snd started_controller) @
      [Call ''InputStream.stop'' [PInt 0], Call ''InputStream.close'' [PInt 0],
       Call ''WebSocketApp.close'' [PInt 1]])"
  by (simp add: stop_realtime_def stop_audio_stream_def close_ws_def join_thread_def invoke_def
        started_handles env_close_fails_def)

lemma linux_never_started:
  "audio_stream (linux_controller md) = None" "ws (linux_controller md) = None"
  "ws_thread (linux_controller md) = None" "\<not> is_recording (linux_controller md)"
  by (simp_all add: linux_controller_def new_controller_def)

text \<open>
  C7, as the code has it. On a controller that was never started, \<open>stop_realtime\<close>
  makes no call and does not raise; all it does is clear \<open>is_recording\<close>, so it
  changes nothing when the flag was clear. In every case the controller after the call
  is the one before it with \<open>is_recording\<close> cleared, so stopping again leaves the
  controller's fields as they are. But the stream, the websocket and the thread stay
  stored: each call on a started controller, a repeated one too, again stops and closes
  the stream, closes the websocket and joins the thread. \<open>stop_realtime\<close> is exactly
  these calls run in order up to the first that raises: it returns normally when all of
  them return, and the exception of the first that raises leaves through
  \<open>stop_realtime\<close> with the calls after it not made.
\<close>

theorem stop_realtime_effect:
  "(audio_stream c = None \<and> ws c = None \<and> ws_thread c = None \<longrightarrow>
      stop_realtime env c t = (Inr (), c\<lparr>is_recording := False\<rparr>, t)) \<and>
   (audio_stream c = None \<and> ws c = None \<and> ws_thread c = None \<and> \<not> is_recording c \<longrightarrow>
      stop_realtime env c t = (Inr (), c, t)) \<and>
   fst (snd (stop_realtime env c t)) = c\<lparr>is_recording := False\<rparr> \<and>
   fst (snd (stop_realtime env (fst (snd (stop_realtime env c t))) t')) =
     fst (snd (stop_realtime env c t)) \<and>
   (audio_stream c = Some s \<and> ws c = Some w \<and> ws_thread c = Some th \<and>
    (\<forall>h call. \<not> isl (env h call)) \<longrightarrow>
      stop_realtime env c t =
        (Inr (), c\<lparr>is_recording := False\<rparr>,
         t @ [Call ''InputStream.stop'' [s], Call ''InputStream.close'' [s],
              Call ''WebSocketApp.close'' [w], Call ''Thread.join'' [th]])) \<and>
   (fst (stop_realtime env c t) = Inl e \<longrightarrow> (\<exists>h call. env h call = Inl e)) \<and>
   stop_realtime env c t =
     (case run_calls env (stop_calls c) t of (r, t') \<Rightarrow> (r, c\<lparr>is_recording := False\<rparr>, t')) \<and>
   (audio_stream c = Some s \<and> ws c = Some w \<and> ws_thread c = Some th \<and>
   env t (Call ''InputStream.stop'' [s]) = Inl e \<longrightarrow>
      stop_realtime env c t =
     (Inl e, c\<lparr>is_recording := False\<rparr>,
      t @ [Call ''InputStream.stop'' [s]])) \<and>
   (audio_stream c = Some s \<and> ws c = Some w \<and> ws_thread c = Some th \<and>
   env t (Call ''InputStream.stop'' [s]) = Inr r1 \<and>
   env (t @ [Call ''InputStream.stop'' [s]]) (Call ''InputStream.close'' [s]) = Inl e \<longrightarrow>
      stop_realtime env c t =
     (Inl e, c\<lparr>is_recording := False\<rparr>,
      t @ [Call ''InputStream.stop'' [s], Call ''InputStream.close'' [s]])) \<and>
   (audio_stream c = Some s \<and> ws c = Some w \<and> ws_thread c = Some th \<and>
   env t (Call ''InputStream.stop'' [s]) = Inr r1 \<and>
   env (t @ [Call ''InputStream.stop'' [s]]) (Call ''InputStream.close'' [s]) = Inr r2 \<and>
   env (t @ [Call ''InputStream.stop'' [s], Call ''InputStream.close'' [s]]) (Call ''WebSocketApp.close'' [w]) = Inl e \<longrightarrow>
      stop_realtime env c t =
     (Inl e, c\<lparr>is_recording := False\<rparr>,
      t @ [Call ''InputStream.stop'' [s], Call ''InputStream.close'' [s], Call ''WebSocketApp.close'' [w]])) \<and>
   (audio_stream c = Some s \<and> ws c = Some w \<and> ws_thread c = Some th \<and>
   env t (Call ''InputStream.stop'' [s]) = Inr r1 \<and>
   env (t @ [Call ''InputStream.stop'' [s]]) (Call ''InputStream.close'' [s]) = Inr r2 \<and>
   env (t @ [Call ''InputStream.stop'' [s], Call ''InputStream.close'' [s]]) (Call ''WebSocketApp.close'' [w]) = Inr r3 \<and>
   env (t @ [Call ''InputStream.stop'' [s], Call ''InputStream.close'' [s], Call ''WebSocketApp.close'' [w]]) (Call ''Thread.join'' [th]) = Inl e \<longrightarrow>
      stop_realtime env c t =
     (Inl e, c\<lparr>is_recording := False\<rparr>,
      t @ [Call ''InputStream.stop'' [s], Call ''InputStream.close'' [s], Call ''WebSocketApp.close'' [w], Call ''Thread.join'' [th]])) \<and>
   (audio_stream c = Some s \<and> ws c = Some w \<and> ws_thread c = Some th \<and>
   env t (Call ''InputStream.stop'' [s]) = Inr r1 \<and>
   env (t @ [Call ''InputStream.stop'' [s]]) (Call ''InputStream.close'' [s]) = Inr r2 \<and>
   env (t @ [Call ''InputStream.stop'' [s], Call ''InputStream.close'' [s]]) (Call ''WebSocketApp.close'' [w]) = Inr r3 \<and>
   env (t @ [Call ''InputStream.stop'' [s], Call ''InputStream.close'' [s], Call ''WebSocketApp.close'' [w]]) (Call ''Thread.join'' [th]) = Inr r4 \<longrightarrow>
      stop_realtime env c t =
     (Inr (), c\<lparr>is_recording := False\<rparr>,
      t @ [Call ''InputStream.stop'' [s], Call ''InputStream.close'' [s], Call ''WebSocketApp.close'' [w], Call ''Thread.join'' [th]]))"
proof (intro conjI impI)
  assume "audio_stream c = None \<and> ws c = None \<and> ws_thread c = None"
  then show "stop_realtime env c t = (Inr (), c\<lparr>is_recording := False\<rparr>, t)"
    by (simp add: stop_never_started)
next
  assume "audio_stream c = None \<and> ws c = None \<and> ws_thread c = None \<and> \<not> is_recording c"
  then show "stop_realtime env c t = (Inr (), c, t)"
    by (simp add: stop_never_started unset_flag)
next
  show "fst (snd (stop_realtime env c t)) = c\<lparr>is_recording := False\<rparr>"
    by (rule stop_controller)
next
  show "fst (snd (stop_realtime env (fst (snd (stop_realtime env c t))) t')) =
     fst (snd (stop_realtime env c t))"
    by (simp add: stop_controller)
next
  assume a: "audio_stream c = Some s \<and> ws c = Some w \<and> ws_thread c = Some th \<and>
    (\<forall>h call. \<not> isl (env h call))"
  from a have h: "audio_stream c = Some s" "ws c = Some w" "ws_thread c = Some th" by simp_all
  from a have n: "\<forall>h call. \<not> isl (env h call)" by simp
  show "stop_realtime env c t =
        (Inr (), c\<lparr>is_recording := False\<rparr>,
         t @ [Call ''InputStream.stop'' [s], Call ''InputStream.close'' [s],
              Call ''WebSocketApp.close'' [w], Call ''Thread.join'' [th]])"
    by (rule stop_realtime_returns [OF h n])
next
  assume "fst (stop_realtime env c t) = Inl e"
  then show "\<exists>h call. env h call = Inl e" by (rule stop_realtime_raise)
next
  show "stop_realtime env c t =
     (case run_calls env (stop_calls c) t of (r, t') \<Rightarrow> (r, c\<lparr>is_recording := False\<rparr>, t'))"
    by (rule stop_realtime_run)
next
  assume "audio_stream c = Some s \<and> ws c = Some w \<and> ws_thread c = Some th \<and>
   env t (Call ''InputStream.stop'' [s]) = Inl e"
  then show "stop_realtime env c t =
     (Inl e, c\<lparr>is_recording := False\<rparr>,
      t @ [Call ''InputStream.stop'' [s]])"
    by (rule stop_stop_raises)
next
  assume "audio_stream c = Some s \<and> ws c = Some w \<and> ws_thread c = Some th \<and>
   env t (Call ''InputStream.stop'' [s]) = Inr r1 \<and>
   env (t @ [Call ''InputStream.stop'' [s]]) (Call ''InputStream.close'' [s]) = Inl e"
  then show "stop_realtime env c t =
     (Inl e, c\<lparr>is_recording := False\<rparr>,
      t @ [Call ''InputStream.stop'' [s], Call ''InputStream.close'' [s]])"
    by (rule stop_close_raises)
next
  assume "audio_stream c = Some s \<and> ws c = Some w \<and> ws_thread c = Some th \<and>
   env t (Call ''InputStream.stop'' [s]) = Inr r1 \<and>
   env (t @ [Call ''InputStream.stop'' [s]]) (Call ''InputStream.close'' [s]) = Inr r2 \<and>
   env (t @ [Call ''InputStream.stop'' [s], Call ''InputStream.close'' [s]]) (Call ''WebSocketApp.close'' [w]) = Inl e"
  then show "stop_realtime env c t =
     (Inl e, c\<lparr>is_recording := False\<rparr>,
      t @ [Call ''InputStream.stop'' [s], Call ''InputStream.close'' [s], Call ''WebSocketApp.close'' [w]])"
    by (rule stop_ws_close_raises)
next
  assume "audio_stream c = Some s \<and> ws c = Some w \<and> ws_thread c = Some th \<and>
   env t (Call ''InputStream.stop'' [s]) = Inr r1 \<and>
   env (t @ [Call ''InputStream.stop'' [s]]) (Call ''InputStream.close'' [s]) = Inr r2 \<and>
   env (t @ [Call ''InputStream.stop'' [s], Call ''InputStream.close'' [s]]) (Call ''WebSocketApp.close'' [w]) = Inr r3 \<and>
   env (t @ [Call ''InputStream.stop'' [s], Call ''InputStream.close'' [s], Call ''WebSocketApp.close'' [w]]) (Call ''Thread.join'' [th]) = Inl e"
  then show "stop_realtime env c t =
     (Inl e, c\<lparr>is_recording := False\<rparr>,
      t @ [Call ''InputStream.stop'' [s], Call ''InputStream.close'' [s], Call ''WebSocketApp.close'' [w], Call ''Thread.join'' [th]])"
    by (rule stop_join_raises)
next
  assume "audio_stream c = Some s \<and> ws c = Some w \<and> ws_thread c = Some th \<and>
   env t (Call ''InputStream.stop'' [s]) = Inr r1 \<and>
   env (t @ [Call ''InputStream.stop'' [s]]) (Call ''InputStream.close'' [s]) = Inr r2 \<and>
   env (t @ [Call ''InputStream.stop'' [s], Call ''InputStream.close'' [s]]) (Call ''WebSocketApp.close'' [w]) = Inr r3 \<and>
   env (t @ [Call ''InputStream.stop'' [s], Call ''InputStream.close'' [s], Call ''WebSocketApp.close'' [w]]) (Call ''Thread.join'' [th]) = Inr r4"
  then show "stop_realtime env c t =
     (Inr (), c\<lparr>is_recording := False\<rparr>,
      t @ [Call ''InputStream.stop'' [s], Call ''InputStream.close'' [s], Call ''WebSocketApp.close'' [w], Call ''Thread.join'' [th]])"
    by (rule stop_all_return)
qed

theorem stop_realtime_effect_witness:
  "audio_stream (linux_controller ''realtime'') = None \<and> ws (linux_controller ''realtime'') = None \<and>
   ws_thread (linux_controller ''realtime'') = None \<and> \<not> is_recording (linux_controller ''realtime'') \<and>
   stop_realtime env_raise (linux_controller ''realtime'') [] =
     (Inr (), linux_controller ''realtime'', []) \<and>
   audio_stream (fst (snd started_controller)) = Some (PInt 0) \<and>
   ws (fst (snd started_controller)) = Some (PInt 1) \<and>
   ws_thread (fst (snd started_controller)) = Some (PInt 2) \<and>
   (\<forall>h call. \<not> isl (env_fresh h call)) \<and>
   stop_realtime env_fresh (fst (snd started_controller)) (snd (snd started_controller)) =
     (Inr (), (fst (snd started_controller))\<lparr>is_recording := False\<rparr>,
      snd (snd started_controller) @
      [Call ''InputStream.stop'' [PInt 0], Call ''InputStream.close'' [PInt 0],
       Call ''WebSocketApp.close'' [PInt 1], Call ''Thread.join'' [PInt 2]]) \<and>
   fst (stop_realtime env_close_fails (fst (snd started_controller)) (snd (snd started_controller))) =
     Inl (Exn ''WebSocketException'' ''close failed'') \<and>
   (\<exists>h call. env_close_fails h call = Inl (Exn ''WebSocketException'' ''close failed'')) \<and>
   env_close_fails (snd (snd started_controller)) (Call ''InputStream.stop'' [PInt 0]) = Inr (PInt 5) \<and>
   env_close_fails (snd (snd started_controller) @ [Call ''InputStream.stop'' [PInt 0]]) (Call ''InputStream.close'' [PInt 0]) = Inr (PInt 6) \<and>
   env_close_fails (snd (snd started_controller) @ [Call ''InputStream.stop'' [PInt 0], Call ''InputStream.close'' [PInt 0]]) (Call ''WebSocketApp.close'' [PInt 1]) = Inl (Exn ''WebSocketException'' ''close failed'') \<and>
   stop_realtime env_close_fails (fst (snd started_controller)) (snd (snd started_controller)) =
     (Inl (Exn ''WebSocketException'' ''close failed''), (fst (snd started_controller))\<lparr>is_recording := False\<rparr>,
      snd (snd started_controller) @ [Call ''InputStream.stop'' [PInt 0], Call ''InputStream.close'' [PInt 0], Call ''WebSocketApp.close'' [PInt 1]])"
proof -
  from stop_realtime_effect [of "linux_controller ''realtime''" env_raise "[]",
      THEN conjunct2, THEN conjunct1]
    linux_never_started
  have a: "stop_realtime env_raise (linux_controller ''realtime'') [] =
     (Inr (), linux_controller ''realtime'', [])" by blast
  from stop_realtime_effect [of "fst (snd started_controller)" env_fresh
      "snd (snd started_controller)" _ "PInt 0" "PInt 1" "PInt 2",
      THEN conjunct2, THEN conjunct2, THEN conjunct2, THEN conjunct2, THEN conjunct1]
    started_handles env_fresh_returns
  have b: "stop_realtime env_fresh (fst (snd started_controller)) (snd (snd started_controller)) =
     (Inr (), (fst (snd started_controller))\<lparr>is_recording := False\<rparr>,
      snd (snd started_controller) @
      [Call ''InputStream.stop'' [PInt 0], Call ''InputStream.close'' [PInt 0],
       Call ''WebSocketApp.close'' [PInt 1], Call ''Thread.join'' [PInt 2]])" by blast
  have x: "fst (stop_realtime env_close_fails (fst (snd started_controller))
      (snd (snd started_controller))) = Inl (Exn ''WebSocketException'' ''close failed'')"
    by (simp add: close_fails_value)
  from stop_realtime_effect [of "fst (snd started_controller)" env_close_fails
      "snd (snd started_controller)" _ _ _ _ "Exn ''WebSocketException'' ''close failed''",
      THEN conjunct2, THEN conjunct2, THEN conjunct2, THEN conjunct2, THEN conjunct2,
      THEN conjunct1] x
  have c: "\<exists>h call. env_close_fails h call = Inl (Exn ''WebSocketException'' ''close failed'')"
    by blast
  have l: "length (snd (snd started_controller)) = 5" by (simp add: started_value)
  have e1: "env_close_fails (snd (snd started_controller)) (Call ''InputStream.stop'' [PInt 0]) = Inr (PInt 5)"
    by (simp add: env_close_fails_def l)
  have e2: "env_close_fails (snd (snd started_controller) @ [Call ''InputStream.stop'' [PInt 0]]) (Call ''InputStream.close'' [PInt 0]) = Inr (PInt 6)"
    by (simp add: env_close_fails_def l)
  have e3: "env_close_fails (snd (snd started_controller) @ [Call ''InputStream.stop'' [PInt 0], Call ''InputStream.close'' [PInt 0]]) (Call ''WebSocketApp.close'' [PInt 1]) = Inl (Exn ''WebSocketException'' ''close failed'')"
    by (simp add: env_close_fails_def)
  from stop_realtime_effect [of "fst (snd started_controller)" env_close_fails "snd (snd started_controller)" _ "PInt 0" "PInt 1" "PInt 2"
      "Exn ''WebSocketException'' ''close failed''" "PInt 5" "PInt 6",
      THEN conjunct2, THEN conjunct2, THEN conjunct2, THEN conjunct2, THEN conjunct2,
      THEN conjunct2, THEN conjunct2, THEN conjunct2, THEN conjunct2,
      THEN conjunct1] started_handles e1 e2 e3
  have d: "stop_realtime env_close_fails (fst (snd started_controller)) (snd (snd started_controller)) =
     (Inl (Exn ''WebSocketException'' ''close failed''), (fst (snd started_controller))\<lparr>is_recording := False\<rparr>,
      snd (snd started_controller) @ [Call ''InputStream.stop'' [PInt 0], Call ''InputStream.close'' [PInt 0], Call ''WebSocketApp.close'' [PInt 1]])"
    by blast
  from a b c d x e1 e2 e3 linux_never_started started_handles env_fresh_returns show ?thesis by blast
qed

text \<open>
  The claim as written fails: a second \<open>stop_realtime\<close> after a first one that
  returned is not a no-op, it makes the same four calls again; and when closing the
  websocket raises, \<open>stop_realtime\<close> raises and the thread is never joined.
\<close>

theorem repeated_stop_counterexample:
  "fst stopped_controller = Inr () \<and>
   snd (snd (stop_realtime env_fresh (fst (snd stopped_controller)) (snd (snd stopped_controller)))) =
     snd (snd stopped_controller) @
     [Call ''InputStream.stop'' [PInt 0], Call ''InputStream.close'' [PInt 0],
      Call ''WebSocketApp.close'' [PInt 1], Call ''Thread.join'' [PInt 2]] \<and>
   stop_realtime env_fresh (fst (snd stopped_controller)) (snd (snd stopped_controller)) \<noteq>
     (Inr (), fst (snd stopped_controller), snd (snd stopped_controller)) \<and>
   fst (stop_realtime env_close_fails (fst (snd started_controller)) (snd (snd started_controller))) =
     Inl (Exn ''WebSocketException'' ''close failed'') \<and>
   snd (snd (stop_realtime env_close_fails (fst (snd started_controller))
     (snd (snd started_controller)))) =
     snd (snd started_controller) @
     [Call ''InputStream.stop'' [PInt 0], Call ''InputStream.close'' [PInt 0],
      Call ''WebSocketApp.close'' [PInt 1]]"
  by (simp add: second_stop_value close_fails_value) (simp add: stopped_value)

section \<open>Arguments that are not given\<close>

lemma snd_try_except: "snd (try_except r h) = snd r"
  by (cases r) (simp add: try_except_def split: sum.splits)

lemma snd_invoke: "snd (invoke env call t) = t @ [call]"
  by (simp add: invoke_def)

lemma file_routed:
  "(operation, Handle_file_operation) \<in> set available_functions \<Longrightarrow>
   file_operation_body env operation params t =
     invoke env (Call (''file_operations.'' @ operation)
       (map (dict_get params) (arguments_read operation))) t"
  unfolding available_functions_def
  by (simp, elim disjE) (simp_all add: file_operation_body_def arguments_read_def)

lemma terminal_routed:
  "(operation, Handle_terminal_operation) \<in> set available_functions \<Longrightarrow>
   terminal_operation_body env operation params t =
     invoke env (Call (''terminal_operations.'' @ operation)
       (map (dict_get params) (arguments_read operation))) t"
  unfolding available_functions_def
  by (simp, elim disjE) (simp_all add: terminal_operation_body_def arguments_read_def)

lemma web_routed:
  "(operation, Handle_web_operation) \<in> set available_functions \<Longrightarrow>
   web_operation_body env operation params t =
     invoke env (Call (''web_operations.'' @ operation)
       (map (dict_get params) (arguments_read operation))) t"
  unfolding available_functions_def
  by (simp, elim disjE) (simp_all add: web_operation_body_def arguments_read_def)

lemma media_routed:
  "operation \<in> {''generate_image'', ''generate_audio''} \<Longrightarrow>
   media_operation_body env operation params t =
     invoke env (Call (''media_operations.'' @ operation)
       (map (dict_get params) (arguments_read operation))) t"
  by (simp, elim disjE) (simp_all add: media_operation_body_def arguments_read_def)

lemma file_passed:
  "(operation, Handle_file_operation) \<in> set available_functions \<longrightarrow>
      handle_file_operation env operation params c t =
        ((case env t (Call (''file_operations.'' @ operation) (map (dict_get params) (arguments_read operation))) of
            Inl e \<Rightarrow> Inr (PStr (''Error in file operation: '' @ str_exn e))
          | Inr v \<Rightarrow> Inr v),
         c, t @ [Call (''file_operations.'' @ operation) (map (dict_get params) (arguments_read operation))])"
  by (rule impI) (simp add: handle_file_operation_def file_routed try_except_def invoke_def
        split: sum.splits)

lemma terminal_passed:
  "(operation, Handle_terminal_operation) \<in> set available_functions \<longrightarrow>
      handle_terminal_operation env operation params c t =
        ((case env t (Call (''terminal_operations.'' @ operation) (map (dict_get params) (arguments_read operation))) of
            Inl e \<Rightarrow> Inr (PStr (''Error in terminal operation: '' @ str_exn e))
          | Inr v \<Rightarrow> Inr v),
         c, t @ [Call (''terminal_operations.'' @ operation) (map (dict_get params) (arguments_read operation))])"
  by (rule impI) (simp add: handle_terminal_operation_def terminal_routed try_except_def invoke_def
        split: sum.splits)

lemma web_passed:
  "(operation, Handle_web_operation) \<in> set available_functions \<longrightarrow>
      handle_web_operation env operation params c t =
        ((case env t (Call (''web_operations.'' @ operation) (map (dict_get params) (arguments_read operation))) of
            Inl e \<Rightarrow> Inr (PStr (''Error in web operation: '' @ str_exn e))
          | Inr v \<Rightarrow> Inr v),
         c, t @ [Call (''web_operations.'' @ operation) (map (dict_get params) (arguments_read operation))])"
  by (rule impI) (simp add: handle_web_operation_def web_routed try_except_def invoke_def
        split: sum.splits)

lemma media_passed:
  "operation \<in> {''generate_image'', ''generate_audio''} \<longrightarrow>
      handle_media_operation env operation params c t =
        ((case env t (Call (''media_operations.'' @ operation) (map (dict_get params) (arguments_read operation))) of
            Inl e \<Rightarrow> Inr (PStr (''Error in media operation: '' @ str_exn e))
          | Inr v \<Rightarrow> Inr v),
         c, t @ [Call (''media_operations.'' @ operation) (map (dict_get params) (arguments_read operation))])"
  by (rule impI) (simp add: handle_media_operation_def media_routed try_except_def invoke_def
        split: sum.splits)

lemma dict_get_absent: "k \<notin> set (map fst params) \<longrightarrow> dict_get params k = PNone"
  by (simp add: dict_get_def map_of_eq_None_iff [THEN iffD2])

lemma dict_get_present: "map_of params k = Some v \<longrightarrow> dict_get params k = v"
  by (simp add: dict_get_def)

lemma bad_keyword_none: "set ks \<subseteq> {''action'', ''value''} \<Longrightarrow> bad_keyword ks = None"
  by (induction ks) auto

lemma volume_without_action:
  "map_of params ''action'' = None \<longrightarrow>
     (\<exists>detail. handle_system_control env ''volume'' params c t =
        (Inr (PStr (''Error executing volume: '' @ detail)), c, t))"
  by (simp add: handle_system_control_def system_control_body_def call_control_volume_def
        try_except_def split: option.splits)

lemma volume_missing_action:
  "set (map fst params) \<subseteq> {''value''} \<longrightarrow>
     handle_system_control env ''volume'' params c t =
       (Inr (PStr (''Error executing volume: SystemController.control_volume() '' @
                   ''missing 1 required positional argument: '' @ quote ''action'')), c, t)"
proof
  assume a: "set (map fst params) \<subseteq> {''value''}"
  then have "set (map fst params) \<subseteq> {''action'', ''value''}" by blast
  then have b: "bad_keyword (map fst params) = None" by (rule bad_keyword_none)
  from a have "''action'' \<notin> set (map fst params)" by auto
  then have m: "map_of params ''action'' = None" by (simp add: map_of_eq_None_iff)
  show "handle_system_control env ''volume'' params c t =
       (Inr (PStr (''Error executing volume: SystemController.control_volume() '' @
                   ''missing 1 required positional argument: '' @ quote ''action'')), c, t)"
    using b m
    by (simp add: handle_system_control_def system_control_body_def call_control_volume_def
          try_except_def)
qed

lemma create_file_registered:
  "(''create_file'', Handle_file_operation) \<in> set available_functions"
  by (simp add: available_functions_def)

lemma control_volume_registered:
  "(''control_volume'', Handle_system_control) \<in> set available_functions"
  by (simp add: available_functions_def)

text \<open>
  C5, as the code has it. For every operation registered to
  \<open>handle_file_operation\<close>, \<open>handle_terminal_operation\<close> or
  \<open>handle_web_operation\<close>, and for \<open>generate_image\<close> and \<open>generate_audio\<close>, the
  handler makes exactly one call, to the method of that name, with each argument read by
  \<open>params.get\<close>: the value stored under the key, and \<open>None\<close> when the key is
  absent. It returns what the method returns, or "Error in <group> operation: <detail>"
  when the method raises. No handler ever raises. \<open>handle_system_control\<close> does not
  read its arguments this way: it passes the mapping on as keyword arguments, and for
  the action "volume" a mapping without the key \<open>action\<close> makes the call itself fail;
  the text "Error executing volume: ..." comes back and no call is made.
\<close>

theorem absent_argument_passed_as_None:
  "((operation, Handle_file_operation) \<in> set available_functions \<longrightarrow>
      handle_file_operation env operation params c t =
        ((case env t (Call (''file_operations.'' @ operation) (map (dict_get params) (arguments_read operation))) of
            Inl e \<Rightarrow> Inr (PStr (''Error in file operation: '' @ str_exn e))
          | Inr v \<Rightarrow> Inr v),
         c, t @ [Call (''file_operations.'' @ operation) (map (dict_get params) (arguments_read operation))])) \<and>
   ((operation, Handle_terminal_operation) \<in> set available_functions \<longrightarrow>
      handle_terminal_operation env operation params c t =
        ((case env t (Call (''terminal_operations.'' @ operation) (map (dict_get params) (arguments_read operation))) of
            Inl e \<Rightarrow> Inr (PStr (''Error in terminal operation: '' @ str_exn e))
          | Inr v \<Rightarrow> Inr v),
         c, t @ [Call (''terminal_operations.'' @ operation) (map (dict_get params) (arguments_read operation))])) \<and>
   ((operation, Handle_web_operation) \<in> set available_functions \<longrightarrow>
      handle_web_operation env operation params c t =
        ((case env t (Call (''web_operations.'' @ operation) (map (dict_get params) (arguments_read operation))) of
            Inl e \<Rightarrow> Inr (PStr (''Error in web operation: '' @ str_exn e))
          | Inr v \<Rightarrow> Inr v),
         c, t @ [Call (''web_operations.'' @ operation) (map (dict_get params) (arguments_read operation))])) \<and>
   (operation \<in> {''generate_image'', ''generate_audio''} \<longrightarrow>
      handle_media_operation env operation params c t =
        ((case env t (Call (''media_operations.'' @ operation) (map (dict_get params) (arguments_read operation))) of
            Inl e \<Rightarrow> Inr (PStr (''Error in media operation: '' @ str_exn e))
          | Inr v \<Rightarrow> Inr v),
         c, t @ [Call (''media_operations.'' @ operation) (map (dict_get params) (arguments_read operation))])) \<and>
   (k \<notin> set (map fst params) \<longrightarrow> dict_get params k = PNone) \<and>
   (map_of params k = Some v \<longrightarrow> dict_get params k = v) \<and>
   (\<exists>v. fst (call_handler h env operation params c t) = Inr v) \<and>
   (map_of params ''action'' = None \<longrightarrow>
     (\<exists>detail. handle_system_control env ''volume'' params c t =
        (Inr (PStr (''Error executing volume: '' @ detail)), c, t))) \<and>
   (set (map fst params) \<subseteq> {''value''} \<longrightarrow>
     handle_system_control env ''volume'' params c t =
       (Inr (PStr (''Error executing volume: SystemController.control_volume() '' @
                   ''missing 1 required positional argument: '' @ quote ''action'')), c, t))"
  by (intro conjI file_passed terminal_passed web_passed media_passed dict_get_absent
        dict_get_present handler_returns volume_without_action volume_missing_action)

theorem absent_argument_passed_as_None_witness:
  "(''create_file'', Handle_file_operation) \<in> set available_functions \<and>
   ''content'' \<notin> set (map fst [(''path'', PStr ''a.txt'')]) \<and>
   dict_get [(''path'', PStr ''a.txt'')] ''content'' = PNone \<and>
   handle_file_operation env_ok ''create_file'' [(''path'', PStr ''a.txt'')]
     (linux_controller ''text'') [] =
     (Inr (PStr ''ok''), linux_controller ''text'',
      [Call ''file_operations.create_file'' [PStr ''a.txt'', PNone]]) \<and>
   set (map fst ([] :: params)) \<subseteq> {''value''} \<and>
   handle_system_control env_ok ''volume'' [] (linux_controller ''text'') [] =
     (Inr (PStr (''Error executing volume: SystemController.control_volume() '' @
                 ''missing 1 required positional argument: '' @ quote ''action'')),
      linux_controller ''text'', [])"
proof -
  note f = absent_argument_passed_as_None [of "''create_file''" env_ok
      "[(''path'', PStr ''a.txt'')]" "linux_controller ''text''" "[]" "''content''"]
  have n: "''content'' \<notin> set (map fst [(''path'', PStr ''a.txt'')])" by simp
  from f [THEN conjunct2, THEN conjunct2, THEN conjunct2, THEN conjunct2, THEN conjunct1] n
  have g: "dict_get [(''path'', PStr ''a.txt'')] ''content'' = PNone" by blast
  have p: "dict_get [(''path'', PStr ''a.txt'')] ''path'' = PStr ''a.txt''"
    by (simp add: dict_get_def)
  from f [THEN conjunct1] create_file_registered
  have "handle_file_operation env_ok ''create_file'' [(''path'', PStr ''a.txt'')]
     (linux_controller ''text'') [] =
     ((case env_ok [] (Call (''file_operations.'' @ ''create_file'')
        (map (dict_get [(''path'', PStr ''a.txt'')]) (arguments_read ''create_file''))) of
         Inl e \<Rightarrow> Inr (PStr (''Error in file operation: '' @ str_exn e))
       | Inr v \<Rightarrow> Inr v),
      linux_controller ''text'',
      [] @ [Call (''file_operations.'' @ ''create_file'')
        (map (dict_get [(''path'', PStr ''a.txt'')]) (arguments_read ''create_file''))])"
    by blast
  then have a: "handle_file_operation env_ok ''create_file'' [(''path'', PStr ''a.txt'')]
     (linux_controller ''text'') [] =
     (Inr (PStr ''ok''), linux_controller ''text'',
      [Call ''file_operations.create_file'' [PStr ''a.txt'', PNone]])"
    by (simp add: arguments_read_def env_ok_def g p)
  have e: "set (map fst ([] :: params)) \<subseteq> {''value''}" by simp
  from absent_argument_passed_as_None [of _ env_ok "[]" "linux_controller ''text''" "[]",
      THEN conjunct2, THEN conjunct2, THEN conjunct2, THEN conjunct2, THEN conjunct2,
      THEN conjunct2, THEN conjunct2, THEN conjunct2] e
  have b: "handle_system_control env_ok ''volume'' [] (linux_controller ''text'') [] =
     (Inr (PStr (''Error executing volume: SystemController.control_volume() '' @
                 ''missing 1 required positional argument: '' @ quote ''action'')),
      linux_controller ''text'', [])"
    by blast
  from create_file_registered n g a e b show ?thesis
    by - (intro conjI, assumption+)
qed

text \<open>
  The claim as written fails for the system group: for the registered name
  "control_volume" with no arguments nothing is routed, and for the action "volume" an
  absent \<open>action\<close> is not passed as \<open>None\<close>; with no arguments the answer is the error
  text, with \<open>action\<close> given as \<open>None\<close> it is "Volume None successful".
\<close>

theorem keyword_arguments_counterexample:
  "(''control_volume'', Handle_system_control) \<in> set available_functions \<and>
   call_handler Handle_system_control env_ok ''control_volume'' [] (linux_controller ''text'') [] =
     (Inr (PStr ''Unknown action: control_volume''), linux_controller ''text'', []) \<and>
   handle_system_control env_ok ''volume'' [] (linux_controller ''text'') [] =
     (Inr (PStr (''Error executing volume: SystemController.control_volume() '' @
                 ''missing 1 required positional argument: '' @ quote ''action'')),
      linux_controller ''text'', []) \<and>
   handle_system_control env_ok ''volume'' [(''action'', PNone)] (linux_controller ''text'') [] =
     (Inr (PStr ''Volume None successful''), linux_controller ''text'', [])"
proof -
  have a: "call_handler Handle_system_control env_ok ''control_volume'' []
      (linux_controller ''text'') [] =
     (Inr (PStr ''Unknown action: control_volume''), linux_controller ''text'', [])"
    by (simp add: handle_system_control_def system_control_body_def try_except_def)
  have b: "handle_system_control env_ok ''volume'' [] (linux_controller ''text'') [] =
     (Inr (PStr (''Error executing volume: SystemController.control_volume() '' @
                 ''missing 1 required positional argument: '' @ quote ''action'')),
      linux_controller ''text'', [])"
    by (simp add: handle_system_control_def system_control_body_def call_control_volume_def
          try_except_def)
  have v: "volume_action env_ok ''linux'' PNone PNone [] = (Inr PNone, [])"
    by (simp add: volume_action_def)
  have c: "handle_system_control env_ok ''volume'' [(''action'', PNone)]
      (linux_controller ''text'') [] =
     (Inr (PStr ''Volume None successful''), linux_controller ''text'', [])"
    using v
    by (simp add: handle_system_control_def system_control_body_def call_control_volume_def
          control_volume_def dict_get_def try_except_def linux_volume_supported linux_system)
  from control_volume_registered a b c show ?thesis
    by - (intro conjI, assumption+)
qed

end
